theory Spec2Isabelle
  imports Main "HOL-Library.AList"
begin

section \<open>Text: Python strings as lists of characters\<close>

text \<open>
  A Python \<open>str\<close> is modelled as a \<open>string\<close>, the list of the bytes of its UTF-8
  encoding. The character classes below are the ASCII part of Python's classes
  (\<open>str.isspace\<close>, \<open>str.isalpha\<close>, \<open>str.isdigit\<close>, the regular expression
  classes \<open>\s\<close> and \<open>\d\<close>); a byte beyond ASCII is in none of them and is its own
  lower and upper case, so the model speaks for ASCII messages.
\<close>

definition code :: "char \<Rightarrow> nat" where
  "code c = of_char c"

definition is_space :: "char \<Rightarrow> bool" where
  "is_space c = ((9 \<le> code c \<and> code c \<le> 13) \<or> (28 \<le> code c \<and> code c \<le> 32))"

definition is_upper :: "char \<Rightarrow> bool" where
  "is_upper c = (65 \<le> code c \<and> code c \<le> 90)"

definition is_lower :: "char \<Rightarrow> bool" where
  "is_lower c = (97 \<le> code c \<and> code c \<le> 122)"

definition is_alpha :: "char \<Rightarrow> bool" where
  "is_alpha c = (is_upper c \<or> is_lower c)"

definition is_digit :: "char \<Rightarrow> bool" where
  "is_digit c = (48 \<le> code c \<and> code c \<le> 57)"

definition lower_char :: "char \<Rightarrow> char" where
  "lower_char c = (if is_upper c then char_of (code c + 32) else c)"

definition upper_char :: "char \<Rightarrow> char" where
  "upper_char c = (if is_lower c then char_of (code c - 32) else c)"

definition lower :: "string \<Rightarrow> string" where
  "lower s = map lower_char s"

definition upper :: "string \<Rightarrow> string" where
  "upper s = map upper_char s"

definition strip :: "string \<Rightarrow> string" where
  "strip s = rev (dropWhile is_space (rev (dropWhile is_space s)))"

text \<open>Python's \<open>k in s\<close> on strings: \<open>k\<close> occurs in \<open>s\<close> as a contiguous block.\<close>

fun starts_with :: "string \<Rightarrow> string \<Rightarrow> bool" where
  "starts_with [] s = True"
| "starts_with (k # ks) [] = False"
| "starts_with (k # ks) (c # cs) = (k = c \<and> starts_with ks cs)"

fun contains :: "string \<Rightarrow> string \<Rightarrow> bool" where
  "contains k [] = (k = [])"
| "contains k (c # cs) = (starts_with k (c # cs) \<or> contains k cs)"

section \<open>Field validators (kyc\_util.py)\<close>

definition FACULTIES :: "string list" where
  "FACULTIES =
     [''oral and dental'', ''pharmacy'', ''commerce and business administration'',
      ''engineering'', ''computer science'', ''economics and political science'']"

text \<open>
  \<open>re.match(r"[^@]+@[^@]+\.[^@]+", email)\<close> matches at the start of the string and need
  not reach its end. The first \<open>[^@]+\<close> can only be everything before the first \<open>@\<close>,
  which has to be non-empty; what follows that \<open>@\<close>, up to the next \<open>@\<close> or the end,
  has to hold a dot with at least one character on each side.
\<close>

definition is_valid_email :: "string \<Rightarrow> bool" where
  "is_valid_email email =
     (let local_part = takeWhile (\<lambda>c. c \<noteq> CHR ''@'') email;
          rest = dropWhile (\<lambda>c. c \<noteq> CHR ''@'') email
      in local_part \<noteq> [] \<and> rest \<noteq> [] \<and>
         CHR ''.'' \<in> set (tl (butlast (takeWhile (\<lambda>c. c \<noteq> CHR ''@'') (tl rest)))))"

text \<open>
  \<open>re.match(r"^\+?\d{10,15}$", mobile)\<close>: an optional plus sign, then 10 to 15 digits;
  \<open>$\<close> also matches just before a newline that ends the string.
\<close>

definition digits_10_15 :: "string \<Rightarrow> bool" where
  "digits_10_15 d = (10 \<le> length d \<and> length d \<le> 15 \<and> list_all is_digit d)"

definition is_valid_mobile :: "string \<Rightarrow> bool" where
  "is_valid_mobile mobile =
     (let body = (case mobile of [] \<Rightarrow> [] | c # cs \<Rightarrow> if c = CHR ''+'' then cs else mobile)
      in digits_10_15 body \<or>
         (body \<noteq> [] \<and> last body = CHR ''\<newline>'' \<and> digits_10_15 (butlast body)))"

definition is_valid_faculty :: "string \<Rightarrow> bool" where
  "is_valid_faculty faculty = (lower faculty \<in> set (map lower FACULTIES))"

text \<open>
  \<open>re.match(r"^[a-zA-Z\s]+$", name.strip())\<close>: the stripped text is non-empty and all
  of it is letters and white space (after \<open>strip\<close> no newline ends it).
\<close>

definition validate_name :: "string \<Rightarrow> bool" where
  "validate_name name =
     (2 \<le> length (strip name) \<and> strip name \<noteq> [] \<and>
      list_all (\<lambda>c. is_alpha c \<or> is_space c) (strip name))"

definition validate_faculty :: "string \<Rightarrow> bool" where
  "validate_faculty faculty =
     (if faculty = [] \<or> length (strip faculty) < 2 then False
      else if lower (strip faculty) \<in> set (map lower FACULTIES) then True
      else 2 \<le> length (strip faculty) \<and> strip faculty \<noteq> [] \<and>
           list_all (\<lambda>c. is_alpha c \<or> is_space c \<or> c = CHR ''&'') (strip faculty))"

definition is_valid_password :: "string \<Rightarrow> bool" where
  "is_valid_password password =
     (if length (strip password) < 8 then False
      else list_ex is_alpha password \<and> list_ex is_digit password)"

section \<open>Intent classifier (kyc\_util.py)\<close>

text \<open>
  The language model is a collaborator: \<open>get_llm_instance\<close> gives no instance
  (\<open>NoLLM\<close>) or one whose \<open>invoke\<close> either raises (\<open>None\<close>) or answers with a text.
  The prompt is a fixed template around the user's message, so the answer is taken as a
  function of the message.
\<close>

datatype llm = NoLLM | LLM "string \<Rightarrow> string option"

definition login_keywords :: "string list" where
  "login_keywords =
     [''i want to login'', ''i want to log in'', ''login'', ''log in'', ''sign in'',
      ''access my account'', ''my account'', ''signin'']"

definition register_keywords :: "string list" where
  "register_keywords =
     [''i want to register'', ''i want to apply'', ''register'', ''sign up'', ''signup'',
      ''create account'', ''i want to enroll'', ''apply now'', ''start application'']"

text \<open>The loop \<open>for keyword in keywords: if keyword in message_lower: return ...\<close>.\<close>

fun any_keyword_in :: "string list \<Rightarrow> string \<Rightarrow> bool" where
  "any_keyword_in [] s = False"
| "any_keyword_in (k # ks) s = (if contains k s then True else any_keyword_in ks s)"

definition check_application_intent :: "string \<Rightarrow> string option" where
  "check_application_intent user_message =
     (let message_lower = strip (lower user_message)
      in if any_keyword_in login_keywords message_lower then Some ''login''
         else if any_keyword_in register_keywords message_lower then Some ''register''
         else None)"

text \<open>
  Every exception inside \<open>detect_application_intent\<close> is caught and answered by the
  keyword fallback, which raises nothing on a string; so the result is a plain value.
\<close>

definition detect_application_intent :: "llm \<Rightarrow> string \<Rightarrow> string option" where
  "detect_application_intent l user_message =
     (case l of
        NoLLM \<Rightarrow> check_application_intent user_message
      | LLM invoke \<Rightarrow>
          (case invoke user_message of
             None \<Rightarrow> check_application_intent user_message
           | Some content \<Rightarrow>
               (let result = upper (strip content)
                in if result = ''REGISTER'' then Some ''register''
                   else if result = ''LOGIN'' then Some ''login''
                   else None)))"

section \<open>Credential store (the MongoDB collections)\<close>

text \<open>
  MongoDB compares \<open>_id\<close> values by type and value: an \<open>ObjectId\<close> never equals a
  string, whatever its digits. \<open>insert_one\<close> on a document without \<open>_id\<close> gives it a
  new \<open>ObjectId\<close>; the identifier is written here by its hexadecimal text, which is
  what Python's \<open>str\<close> returns and what \<open>ObjectId(...)\<close> takes.
\<close>

datatype bson_id = ObjectId string | StrId string

fun str_of :: "bson_id \<Rightarrow> string" where
  "str_of (ObjectId h) = h"
| "str_of (StrId s) = s"

text \<open>
  A token is the library's (\<open>jwt.encode\<close>): \<open>Signed p\<close> is the text that carries the
  payload \<open>p\<close> under the service's key, \<open>Foreign s\<close> any other text. Times are whole
  seconds of UTC. Of the library's checks on a payload \<open>jwt_decode\<close> has the expiry;
  a library version that also refuses a token issued in the future refuses more.
\<close>

record payload =
  p_user_id :: string
  p_username :: "string option"
  p_email :: "string option"
  p_role :: string
  p_exp :: nat
  p_iat :: nat
  p_session_id :: string

datatype token = Signed payload | Foreign string

datatype jwt_error = ExpiredSignatureError | InvalidTokenError

definition TOKEN_EXPIRY_HOURS :: nat where
  "TOKEN_EXPIRY_HOURS = 24"

definition jwt_encode :: "payload \<Rightarrow> token" where
  "jwt_encode p = Signed p"

definition jwt_decode :: "nat \<Rightarrow> token \<Rightarrow> jwt_error + payload" where
  "jwt_decode now t =
     (case t of
        Foreign s \<Rightarrow> Inl InvalidTokenError
      | Signed p \<Rightarrow> if p_exp p \<le> now then Inl ExpiredSignatureError else Inr p)"

text \<open>A document of \<open>authenticated_users\<close>; \<open>u_role = None\<close> is a document without the key.\<close>

record user_doc =
  u_id :: bson_id
  u_username :: "string option"
  u_email :: "string option"
  u_password_hash :: string
  u_name :: "string option"
  u_mobile :: "string option"
  u_faculty :: "string option"
  u_role :: "string option"
  u_is_active :: bool
  u_created_at :: nat
  u_last_login :: "nat option"
  u_session_id :: string

text \<open>A document of \<open>user_sessions\<close>.\<close>

record session_doc =
  s_id :: bson_id
  s_user_id :: string
  s_token :: token
  s_session_id :: string
  s_created_at :: nat
  s_expires_at :: nat
  s_is_active :: bool
  s_logout_at :: "nat option"

text \<open>
  The dictionaries the service hands to the conversation: \<open>authenticate_user\<close> fills
  \<open>v_last_login\<close>, \<open>verify_token\<close> fills \<open>v_session_id\<close> and \<open>v_token\<close>.
\<close>

record user_view =
  v_user_id :: string
  v_username :: "string option"
  v_email :: "string option"
  v_name :: "string option"
  v_mobile :: "string option"
  v_faculty :: "string option"
  v_role :: string
  v_last_login :: "nat option"
  v_session_id :: "string option"
  v_token :: "token option"

text \<open>
  \<open>get_mongo_client()\<close> returns nothing (\<open>NoClient\<close>), or a handle on which every
  operation raises (\<open>Failing\<close>), or a working one (\<open>Up\<close>); the status holds for a whole
  operation. \<open>kyc_emails\<close> is the \<open>email\<close> field of each document of the collection
  that the constant \<open>USERS_COLLECTION\<close> names.
\<close>

datatype mongo_status = Up | NoClient | Failing

record world =
  mongo :: mongo_status
  users :: "user_doc list"
  sessions :: "session_doc list"
  kyc_emails :: "string option list"

text \<open>
  What a call takes from outside the program: the clock, the language model, bcrypt
  (\<open>None\<close> where the library raises), the identifiers that \<open>insert_one\<close> draws for a
  new user and a new session document, and the constant of \<open>constants.py\<close>.
\<close>

record env =
  now :: nat
  language_model :: llm
  hashpw :: "string \<Rightarrow> string option"
  checkpw :: "string \<Rightarrow> string \<Rightarrow> bool option"
  new_user_oid :: string
  new_session_oid :: string
  USERS_COLLECTION :: string

text \<open>\<open>update_one\<close> changes the first document that matches.\<close>

fun update_first :: "('a \<Rightarrow> bool) \<Rightarrow> ('a \<Rightarrow> 'a) \<Rightarrow> 'a list \<Rightarrow> 'a list" where
  "update_first P f [] = []"
| "update_first P f (x # xs) = (if P x then f x # xs else x # update_first P f xs)"

section \<open>Auth service (auth\_service.py)\<close>

definition hash_password :: "env \<Rightarrow> string \<Rightarrow> string option" where
  "hash_password e password = hashpw e password"

definition verify_password :: "env \<Rightarrow> string \<Rightarrow> string \<Rightarrow> bool" where
  "verify_password e password hashed_password =
     (case checkpw e password hashed_password of None \<Rightarrow> False | Some b \<Rightarrow> b)"

definition role_or_default :: "user_doc \<Rightarrow> string" where
  "role_or_default user = (case u_role user of None \<Rightarrow> ''user'' | Some r \<Rightarrow> r)"

text \<open>
  \<open>register_user\<close>: every exception ends in \<open>return None\<close>. The lookup has no
  \<open>is_active\<close> condition. \<open>sid\<close> is \<open>cl.user_session.get("id", "unknown")\<close>.
\<close>

definition register_user ::
  "env \<Rightarrow> world \<Rightarrow> string \<Rightarrow> (string \<times> string) list \<Rightarrow> world \<times> string option" where
  "register_user e w sid kyc_data =
     (if mongo w \<noteq> Up then (w, None)
      else case find (\<lambda>u. u_email u = map_of kyc_data ''email'' \<or>
                           u_username u = map_of kyc_data ''email'') (users w) of
        Some existing_user \<Rightarrow> (w, None)
      | None \<Rightarrow>
         (case map_of kyc_data ''password'' of
            None \<Rightarrow> (w, None)
          | Some password \<Rightarrow>
             (case hash_password e password of
                None \<Rightarrow> (w, None)
              | Some hashed_password \<Rightarrow>
                 (let user_doc = \<lparr>
                        u_id = ObjectId (new_user_oid e),
                        u_username = map_of kyc_data ''email'',
                        u_email = map_of kyc_data ''email'',
                        u_password_hash = hashed_password,
                        u_name = map_of kyc_data ''name'',
                        u_mobile = map_of kyc_data ''mobile'',
                        u_faculty = map_of kyc_data ''faculty'',
                        u_role = Some ''user'',
                        u_is_active = True,
                        u_created_at = now e,
                        u_last_login = None,
                        u_session_id = sid \<rparr>
                  in if list_ex (\<lambda>u. u_id u = u_id user_doc) (users w) then (w, None)
                     else (w\<lparr>users := users w @ [user_doc]\<rparr>, Some (new_user_oid e))))))"

text \<open>
  \<open>generate_jwt_token\<close>: the old session documents of the user, newest first, without
  the first four, are deleted; then the new document is inserted. MongoDB leaves open
  the order among documents created at the same instant; here the later stored comes
  first.
\<close>

definition generate_jwt_token ::
  "env \<Rightarrow> world \<Rightarrow> string \<Rightarrow> user_doc \<Rightarrow> world \<times> token option" where
  "generate_jwt_token e w sid user =
     (if mongo w \<noteq> Up then (w, None)
      else
        let pl = \<lparr> p_user_id = str_of (u_id user),
                   p_username = u_username user,
                   p_email = u_email user,
                   p_role = role_or_default user,
                   p_exp = now e + TOKEN_EXPIRY_HOURS * 3600,
                   p_iat = now e,
                   p_session_id = sid \<rparr>;
            tok = jwt_encode pl;
            session_doc = \<lparr> s_id = ObjectId (new_session_oid e),
                            s_user_id = str_of (u_id user),
                            s_token = tok,
                            s_session_id = sid,
                            s_created_at = now e,
                            s_expires_at = p_exp pl,
                            s_is_active = True,
                            s_logout_at = None \<rparr>;
            old_sessions =
              drop 4 (rev (sort_key s_created_at
                (filter (\<lambda>s. s_user_id s = str_of (u_id user)) (sessions w))));
            old_session_ids = map s_id old_sessions;
            kept = (if old_sessions \<noteq> []
                    then filter (\<lambda>s. s_id s \<notin> set old_session_ids) (sessions w)
                    else sessions w)
        in if list_ex (\<lambda>s. s_id s = s_id session_doc) kept
           then (w\<lparr>sessions := kept\<rparr>, None)
           else (w\<lparr>sessions := kept @ [session_doc]\<rparr>, Some tok))"

definition view_of_login :: "user_doc \<Rightarrow> user_view" where
  "view_of_login user =
     \<lparr> v_user_id = str_of (u_id user), v_username = u_username user,
       v_email = u_email user, v_name = u_name user, v_mobile = u_mobile user,
       v_faculty = u_faculty user, v_role = role_or_default user,
       v_last_login = u_last_login user, v_session_id = None, v_token = None \<rparr>"

definition authenticate_user ::
  "env \<Rightarrow> world \<Rightarrow> string \<Rightarrow> string \<Rightarrow> string \<Rightarrow> world \<times> token option \<times> user_view option" where
  "authenticate_user e w sid username password =
     (if mongo w \<noteq> Up then (w, None, None)
      else case find (\<lambda>u. (u_username u = Some (lower username) \<or>
                            u_email u = Some (lower username)) \<and> u_is_active u) (users w) of
        None \<Rightarrow> (w, None, None)
      | Some user \<Rightarrow>
          if \<not> verify_password e password (u_password_hash user) then (w, None, None)
          else
            let w1 = w\<lparr>users := update_first (\<lambda>u. u_id u = u_id user)
                                   (\<lambda>u. u\<lparr>u_last_login := Some (now e)\<rparr>) (users w)\<rparr>;
                (w2, tok) = generate_jwt_token e w1 sid user
            in (w2, tok, Some (view_of_login user)))"

definition verify_token :: "env \<Rightarrow> world \<Rightarrow> token \<Rightarrow> user_view option" where
  "verify_token e w tok =
     (case jwt_decode (now e) tok of
        Inl err \<Rightarrow> None
      | Inr pl \<Rightarrow>
          if mongo w \<noteq> Up then None
          else
            (case find (\<lambda>s. s_token s = tok \<and> s_is_active s \<and> now e < s_expires_at s)
                       (sessions w) of
               None \<Rightarrow> None
             | Some session \<Rightarrow>
                 (case find (\<lambda>u. u_id u = StrId (s_user_id session) \<and> u_is_active u)
                            (users w) of
                    None \<Rightarrow> None
                  | Some user \<Rightarrow>
                      Some \<lparr> v_user_id = str_of (u_id user), v_username = u_username user,
                             v_email = u_email user, v_name = u_name user,
                             v_mobile = u_mobile user, v_faculty = u_faculty user,
                             v_role = role_or_default user, v_last_login = None,
                             v_session_id = Some (p_session_id pl), v_token = Some tok \<rparr>)))"

text \<open>\<open>modified_count\<close> counts the matched document only if the update changed it.\<close>

definition logout_user :: "env \<Rightarrow> world \<Rightarrow> token \<Rightarrow> world \<times> bool" where
  "logout_user e w tok =
     (if mongo w \<noteq> Up then (w, False)
      else case find (\<lambda>s. s_token s = tok) (sessions w) of
        None \<Rightarrow> (w, False)
      | Some s \<Rightarrow>
          (w\<lparr>sessions := update_first (\<lambda>s. s_token s = tok)
                (\<lambda>s. s\<lparr>s_is_active := False, s_logout_at := Some (now e)\<rparr>) (sessions w)\<rparr>,
           s\<lparr>s_is_active := False, s_logout_at := Some (now e)\<rparr> \<noteq> s))"

definition cleanup_expired_sessions :: "env \<Rightarrow> world \<Rightarrow> world \<times> nat" where
  "cleanup_expired_sessions e w =
     (if mongo w \<noteq> Up then (w, 0)
      else (w\<lparr>sessions := filter (\<lambda>s. \<not> s_expires_at s < now e) (sessions w)\<rparr>,
            length (filter (\<lambda>s. s_expires_at s < now e) (sessions w))))"

section \<open>The conversation's session (chainlit's \<open>cl.user_session\<close>)\<close>

text \<open>
  One field for each key the code reads or writes; a key never set reads as \<open>None\<close>
  (\<open>is_authenticated\<close> is read with the default \<open>False\<close>). \<open>kyc_step\<close> and
  \<open>kyc_data\<close> are set by \<open>initialize_user_session\<close> and by the first lines of
  \<open>handle_kyc\<close> before anything reads them, so they always hold a value here.
  Dictionaries are association lists in insertion order.
\<close>

record conv =
  c_id :: "string option"
  is_authenticated :: bool
  user_role :: "string option"
  kyc_step :: int
  kyc_data :: "(string \<times> string) list"
  auth_mode :: "string option"
  jwt_token :: "token option"
  c_user_id :: "string option"
  c_email :: "string option"
  c_name :: "string option"
  auth_token :: "token option"
  authenticated_user :: "user_view option"
  kyc :: "(string \<times> string option) list option"
  is_kyc_complete :: bool

text \<open>\<open>cl.user_session.get("id", "unknown")\<close>.\<close>

definition session_id_of :: "conv \<Rightarrow> string" where
  "session_id_of c = (case c_id c of None \<Rightarrow> ''unknown'' | Some i \<Rightarrow> i)"

text \<open>The session after \<open>initialize_user_session\<close> (main.py) found no stored token.\<close>

definition initial_conv :: "string option \<Rightarrow> conv" where
  "initial_conv i =
     \<lparr> c_id = i, is_authenticated = False, user_role = Some ''guest'', kyc_step = 0,
       kyc_data = [], auth_mode = None, jwt_token = None, c_user_id = None,
       c_email = None, c_name = None, auth_token = None, authenticated_user = None,
       kyc = None, is_kyc_complete = False \<rparr>"

section \<open>Authorization layer (auth\_middleware.py)\<close>

datatype UserRole = GUEST | USER | PREMIUM | ADMIN

text \<open>\<open>UserRole(role_str)\<close>: \<open>None\<close> is the \<open>ValueError\<close>.\<close>

definition UserRole_of :: "string \<Rightarrow> UserRole option" where
  "UserRole_of role_str =
     (if role_str = ''guest'' then Some GUEST
      else if role_str = ''user'' then Some USER
      else if role_str = ''premium_user'' then Some PREMIUM
      else if role_str = ''admin'' then Some ADMIN
      else None)"

fun role_hierarchy :: "UserRole \<Rightarrow> nat" where
  "role_hierarchy GUEST = 0"
| "role_hierarchy USER = 1"
| "role_hierarchy PREMIUM = 2"
| "role_hierarchy ADMIN = 3"

definition clear_auth_session :: "conv \<Rightarrow> conv" where
  "clear_auth_session c =
     c\<lparr>auth_token := None, authenticated_user := None, is_authenticated := False\<rparr>"

definition set_authenticated_user :: "conv \<Rightarrow> token \<Rightarrow> user_view \<Rightarrow> conv \<times> bool" where
  "set_authenticated_user c tok user_data =
     (c\<lparr>auth_token := Some tok, authenticated_user := Some user_data,
        is_authenticated := True,
        kyc := Some [(''name'', v_name user_data), (''email'', v_email user_data),
                     (''mobile'', v_mobile user_data), (''faculty'', v_faculty user_data)],
        is_kyc_complete := True\<rparr>, True)"

definition get_current_user :: "env \<Rightarrow> world \<Rightarrow> conv \<Rightarrow> conv \<times> user_view option" where
  "get_current_user e w c =
     (if \<not> is_authenticated c then (c, None)
      else case authenticated_user c of
        None \<Rightarrow> (c, None)
      | Some user_data \<Rightarrow>
          (case auth_token c of
             Some tok \<Rightarrow>
               (case verify_token e w tok of
                  Some verified_user \<Rightarrow>
                    (c\<lparr>authenticated_user := Some verified_user\<rparr>, Some verified_user)
                | None \<Rightarrow> (clear_auth_session c, None))
           | None \<Rightarrow> (c, Some user_data)))"

definition AuthMiddleware_is_authenticated :: "env \<Rightarrow> world \<Rightarrow> conv \<Rightarrow> conv \<times> bool" where
  "AuthMiddleware_is_authenticated e w c =
     (let (c', user) = get_current_user e w c in (c', user \<noteq> None))"

definition get_user_role :: "env \<Rightarrow> world \<Rightarrow> conv \<Rightarrow> conv \<times> UserRole" where
  "get_user_role e w c =
     (let (c', user) = get_current_user e w c
      in case user of
           None \<Rightarrow> (c', GUEST)
         | Some u \<Rightarrow>
             (case UserRole_of (v_role u) of Some r \<Rightarrow> (c', r) | None \<Rightarrow> (c', USER)))"

definition has_permission :: "env \<Rightarrow> world \<Rightarrow> conv \<Rightarrow> UserRole \<Rightarrow> conv \<times> bool" where
  "has_permission e w c required_role =
     (let (c', current_role) = get_user_role e w c
      in (c', role_hierarchy required_role \<le> role_hierarchy current_role))"

section \<open>KYC state machine (kyc\_util.py)\<close>

text \<open>
  \<open>email_exists\<close> looks into \<open>client[a][b]\<close> for
  \<open>USERS_COLLECTION = "a.b"\<close>; a constant without a dot raises \<open>IndexError\<close>. No
  client and every exception give \<open>False\<close>.
\<close>

definition email_exists :: "env \<Rightarrow> world \<Rightarrow> string \<Rightarrow> bool" where
  "email_exists e w email =
     (case mongo w of
        NoClient \<Rightarrow> False
      | Failing \<Rightarrow> False
      | Up \<Rightarrow> if CHR ''.'' \<notin> set (USERS_COLLECTION e) then False
              else find (\<lambda>d. d = Some email) (kyc_emails w) \<noteq> None)"

text \<open>An f-string prints a missing value as \<open>None\<close>.\<close>

definition py_str :: "string option \<Rightarrow> string" where
  "py_str v = (case v of None \<Rightarrow> ''None'' | Some s \<Rightarrow> s)"

text \<open>The emoji of the messages, in UTF-8.\<close>

definition check_mark :: string where
  "check_mark = [CHR 0xE2, CHR 0x9C, CHR 0x85]"

definition cross_mark :: string where
  "cross_mark = [CHR 0xE2, CHR 0x9D, CHR 0x8C]"

definition clipboard :: string where
  "clipboard = [CHR 0xF0, CHR 0x9F, CHR 0x93, CHR 0x8B]"

definition bullet :: string where
  "bullet = [CHR 0xE2, CHR 0x80, CHR 0xA2]"

definition msg_registration_ok :: "string option \<Rightarrow> string" where
  "msg_registration_ok nm =
     check_mark @ '' Registration successful! Welcome '' @ py_str nm @
     ''!\<newline>\<newline>Your account has been created and you are now logged in. You can start using the chatbot with full features.''"

definition msg_registration_no_data :: string where
  "msg_registration_no_data =
     cross_mark @ '' Registration failed: Could not retrieve user data after registration.''"

definition msg_registration_rejected :: string where
  "msg_registration_rejected =
     cross_mark @ '' Registration failed: Email already exists or invalid data provided.''"

definition msg_registration_error :: string where
  "msg_registration_error =
     cross_mark @ '' Registration failed due to a technical error. Please try again.''"

definition msg_login_ok :: "string option \<Rightarrow> string" where
  "msg_login_ok nm =
     check_mark @ '' Login successful! Welcome back '' @ py_str nm @
     ''!\<newline>\<newline>You are now logged in and can use all chatbot features.''"

definition msg_login_no_session :: string where
  "msg_login_no_session =
     cross_mark @ '' Login failed: Could not set user session. Please try again.''"

definition msg_login_invalid :: string where
  "msg_login_invalid =
     cross_mark @ '' Login failed: Invalid email or password. Please try again.''"

definition msg_login_error :: string where
  "msg_login_error =
     cross_mark @ '' Login failed due to a technical error. Please try again.''"

text \<open>
  \<open>complete_user_registration\<close>: \<open>AuthService()\<close> raises without a client, and every
  exception gives the technical-error message. The token goes to the key
  \<open>jwt_token\<close>; \<open>auth_token\<close> and \<open>authenticated_user\<close> are not written.
\<close>

definition complete_user_registration ::
  "env \<Rightarrow> world \<Rightarrow> conv \<Rightarrow> (string \<times> string) list \<Rightarrow> (world \<times> conv) \<times> (bool \<times> string)" where
  "complete_user_registration e w c data =
     (if mongo w = NoClient then ((w, c), (False, msg_registration_error))
      else
        let (w1, user_id_str) = register_user e w (session_id_of c) data
        in if user_id_str = None \<or> user_id_str = Some []
           then ((w1, c), (False, msg_registration_rejected))
           else
             (case find (\<lambda>u. u_id u = ObjectId (the user_id_str)) (users w1) of
                None \<Rightarrow> ((w1, c), (False, msg_registration_no_data))
              | Some user_data \<Rightarrow>
                  (let (w2, tok) = generate_jwt_token e w1 (session_id_of c) user_data
                   in ((w2, c\<lparr>c_user_id := Some (str_of (u_id user_data)),
                               c_email := u_email user_data,
                               c_name := u_name user_data,
                               jwt_token := tok,
                               is_authenticated := True,
                               user_role := Some (role_or_default user_data)\<rparr>),
                       (True, msg_registration_ok (u_name user_data))))))"

definition attempt_user_login ::
  "env \<Rightarrow> world \<Rightarrow> conv \<Rightarrow> string \<Rightarrow> string \<Rightarrow> (world \<times> conv) \<times> (bool \<times> string)" where
  "attempt_user_login e w c email password =
     (if mongo w = NoClient then ((w, c), (False, msg_login_error))
      else
        let (w1, tok, user_data) = authenticate_user e w (session_id_of c) email password
        in case (tok, user_data) of
             (Some t, Some ud) \<Rightarrow>
               (let (c', auth_success) = set_authenticated_user c t ud
                in if auth_success then ((w1, c'), (True, msg_login_ok (v_name ud)))
                   else ((w1, c'), (False, msg_login_no_session)))
           | _ \<Rightarrow> ((w1, c), (False, msg_login_invalid)))"

text \<open>The prompts of the dialogue.\<close>

definition msg_register_start :: string where
  "msg_register_start =
     ''Great! I'' @ [CHR 0x27] @ ''ll help you register. Let'' @ [CHR 0x27] @
     ''s start with your information.\<newline>\<newline>'' @ clipboard @
     '' **Required Information:**\<newline>'' @ bullet @ '' Full Name\<newline>'' @
     bullet @ '' Email Address\<newline>'' @ bullet @ '' Mobile Number\<newline>'' @
     bullet @ '' Faculty/Department\<newline>'' @ bullet @
     '' Password\<newline>\<newline>Please provide your **full name**:''"

definition msg_login_start :: string where
  "msg_login_start =
     ''Welcome back! Please provide your login credentials.\<newline>\<newline>Please enter your **email address**:''"

definition msg_name_ok :: "string \<Rightarrow> string" where
  "msg_name_ok nm = ''Thank you, '' @ nm @ ''! Now please provide your **email address**:''"

definition msg_name_bad :: string where
  "msg_name_bad = ''Please enter a valid name (at least 2 characters, only letters and spaces):''"

definition msg_email_taken :: string where
  "msg_email_taken =
     ''This email is already registered. Please use a different email address or try logging in instead:''"

definition msg_email_ok :: string where
  "msg_email_ok =
     ''Great! Now please provide your **mobile number** (include country code if international):''"

definition msg_email_bad :: string where
  "msg_email_bad = ''Please enter a valid email address:''"

definition msg_mobile_ok :: string where
  "msg_mobile_ok =
     ''Perfect! Now please tell me your **faculty or department** (e.g., Engineering, Business, etc.):''"

definition msg_mobile_bad :: string where
  "msg_mobile_bad =
     ''Please enter a valid mobile number (10-15 digits, may include country code):''"

definition msg_faculty_ok :: string where
  "msg_faculty_ok =
     ''Excellent! Finally, please create a **password** for your account (minimum 8 characters, include letters and numbers):''"

definition msg_faculty_bad :: string where
  "msg_faculty_bad = ''Please enter a valid faculty/department name (at least 2 characters):''"

definition msg_password_bad :: string where
  "msg_password_bad =
     ''Password must be at least 8 characters long and include both letters and numbers. Please try again:''"

definition msg_password_prompt :: string where
  "msg_password_prompt = ''Please enter your **password**:''"

definition msg_try_again :: string where
  "msg_try_again = ''\<newline>\<newline>Please try again. Enter your **email address**:''"

text \<open>
  What a handler returns: \<open>(is_kyc_flow, intent_detected, response_message)\<close>. The
  handlers read \<open>kyc_data\<close> and \<open>kyc_step\<close> from the session; the dictionary they are
  handed is the session's own object, so writing a key changes the session at once.
\<close>

type_synonym reply = "bool \<times> string option \<times> string option"

datatype py_error = KeyError

definition handle_registration_flow ::
  "env \<Rightarrow> world \<Rightarrow> conv \<Rightarrow> string \<Rightarrow> (world \<times> conv) \<times> reply" where
  "handle_registration_flow e w c user_message =
     (if kyc_step c = 1 then
        (if validate_name user_message
         then ((w, c\<lparr>kyc_data := AList.update ''name'' (strip user_message) (kyc_data c),
                     kyc_step := 2\<rparr>),
               (True, Some ''register'', Some (msg_name_ok (strip user_message))))
         else ((w, c), (True, Some ''register'', Some msg_name_bad)))
      else if kyc_step c = 2 then
        (if is_valid_email user_message
         then (if email_exists e w (lower (strip user_message))
               then ((w, c), (True, Some ''register'', Some msg_email_taken))
               else ((w, c\<lparr>kyc_data := AList.update ''email'' (lower (strip user_message))
                                          (kyc_data c),
                           kyc_step := 3\<rparr>),
                     (True, Some ''register'', Some msg_email_ok)))
         else ((w, c), (True, Some ''register'', Some msg_email_bad)))
      else if kyc_step c = 3 then
        (if is_valid_mobile user_message
         then ((w, c\<lparr>kyc_data := AList.update ''mobile'' (strip user_message) (kyc_data c),
                     kyc_step := 4\<rparr>),
               (True, Some ''register'', Some msg_mobile_ok))
         else ((w, c), (True, Some ''register'', Some msg_mobile_bad)))
      else if kyc_step c = 4 then
        (if validate_faculty user_message
         then ((w, c\<lparr>kyc_data := AList.update ''faculty'' (strip user_message) (kyc_data c),
                     kyc_step := 5\<rparr>),
               (True, Some ''register'', Some msg_faculty_ok))
         else ((w, c), (True, Some ''register'', Some msg_faculty_bad)))
      else if kyc_step c = 5 then
        (if is_valid_password user_message
         then
           (let data = AList.update ''password'' (strip user_message) (kyc_data c);
                ((w1, c1), (success, message)) =
                   complete_user_registration e w (c\<lparr>kyc_data := data\<rparr>) data
            in ((w1, c1\<lparr>kyc_step := 0, kyc_data := [], auth_mode := None\<rparr>),
                (True, Some ''register_complete'', Some message)))
         else ((w, c), (True, Some ''register'', Some msg_password_bad)))
      else ((w, c), (False, None, None)))"

text \<open>
  At step 2 \<open>kyc_data["email"]\<close> raises \<open>KeyError\<close> when the key is missing, after the
  password has been written into the dictionary.
\<close>

definition handle_login_flow ::
  "env \<Rightarrow> world \<Rightarrow> conv \<Rightarrow> string \<Rightarrow> (world \<times> conv) \<times> (py_error + reply)" where
  "handle_login_flow e w c user_message =
     (if kyc_step c = 1 then
        (if is_valid_email user_message
         then ((w, c\<lparr>kyc_data := AList.update ''email'' (lower (strip user_message))
                                    (kyc_data c),
                     kyc_step := 2\<rparr>),
               Inr (True, Some ''login'', Some msg_password_prompt))
         else ((w, c), Inr (True, Some ''login'', Some msg_email_bad)))
      else if kyc_step c = 2 then
        (let data = AList.update ''password'' (strip user_message) (kyc_data c);
             c0 = c\<lparr>kyc_data := data\<rparr>
         in case map_of data ''email'' of
              None \<Rightarrow> ((w, c0), Inl KeyError)
            | Some email \<Rightarrow>
                (let ((w1, c1), (success, message)) =
                       attempt_user_login e w c0 email (strip user_message)
                 in if success
                    then ((w1, c1\<lparr>kyc_step := 0, kyc_data := [], auth_mode := None\<rparr>),
                          Inr (True, Some ''login_complete'', Some message))
                    else ((w1, c1\<lparr>kyc_step := 1, kyc_data := []\<rparr>),
                          Inr (True, Some ''login_failed'', Some (message @ msg_try_again)))))
      else ((w, c), Inr (False, None, None)))"

text \<open>\<open>handle_kyc\<close> catches every exception and answers \<open>(True, None, None)\<close>.\<close>

definition handle_kyc :: "env \<Rightarrow> world \<Rightarrow> conv \<Rightarrow> string \<Rightarrow> (world \<times> conv) \<times> reply" where
  "handle_kyc e w c user_message =
     (if kyc_step c = 0 then
        (let intent = detect_application_intent (language_model e) user_message
         in if intent = Some ''register''
            then ((w, c\<lparr>auth_mode := Some ''register'', kyc_step := 1\<rparr>),
                  (True, Some ''register'', Some msg_register_start))
            else if intent = Some ''login''
            then ((w, c\<lparr>auth_mode := Some ''login'', kyc_step := 1\<rparr>),
                  (True, Some ''login'', Some msg_login_start))
            else ((w, c), (False, None, None)))
      else if auth_mode c = Some ''register'' then handle_registration_flow e w c user_message
      else if auth_mode c = Some ''login'' then
        (case handle_login_flow e w c user_message of
           (st, Inr r) \<Rightarrow> (st, r)
         | (st, Inl err) \<Rightarrow> (st, (True, None, None)))
      else ((w, c), (False, None, None)))"

text \<open>
  The states a conversation can be in: it starts as \<open>initialize_user_session\<close> leaves
  it, and each message goes through \<open>handle_kyc\<close>, whatever the store, the clock and the
  language model do; the middleware's \<open>get_current_user\<close> may run in between.
\<close>

inductive reachable :: "conv \<Rightarrow> bool" where
  start: "reachable (initial_conv i)"
| message: "reachable c \<Longrightarrow> handle_kyc e w c m = ((w', c'), r) \<Longrightarrow> reachable c'"
| middleware: "reachable c \<Longrightarrow> get_current_user e w c = (c', u) \<Longrightarrow> reachable c'"

text \<open>A run of messages, each with what the outside gives at that moment.\<close>

fun run :: "world \<times> conv \<Rightarrow> (env \<times> string) list \<Rightarrow> (world \<times> conv) list" where
  "run st [] = []"
| "run st ((e, m) # rest) =
     (let st' = fst (handle_kyc e (fst st) (snd st) m) in st' # run st' rest)"

text \<open>Tokens issued one after the other to the same user.\<close>

fun issue_tokens :: "world \<Rightarrow> string \<Rightarrow> user_doc \<Rightarrow> env list \<Rightarrow> world" where
  "issue_tokens w sid user [] = w"
| "issue_tokens w sid user (e # es) =
     issue_tokens (fst (generate_jwt_token e w sid user)) sid user es"

definition sessions_of :: "string \<Rightarrow> world \<Rightarrow> session_doc list" where
  "sessions_of uid w = filter (\<lambda>s. s_user_id s = uid) (sessions w)"

section \<open>A worked conversation\<close>

text \<open>
  The registration of Jane Doe in conversation \<open>conv-1\<close>, against an empty store with
  every collaborator working; bcrypt is stood in for by a prefix.
\<close>

definition example_env :: env where
  "example_env =
     \<lparr> now = 1000,
       language_model = LLM (\<lambda>m. Some ''REGISTER''),
       hashpw = (\<lambda>p. Some (''$2b$'' @ p)),
       checkpw = (\<lambda>p h. Some (h = ''$2b$'' @ p)),
       new_user_oid = ''65f000000000000000000001'',
       new_session_oid = ''65f000000000000000000002'',
       USERS_COLLECTION = ''fue.users'' \<rparr>"

definition empty_world :: world where
  "empty_world = \<lparr> mongo = Up, users = [], sessions = [], kyc_emails = [] \<rparr>"

definition registration_messages :: "string list" where
  "registration_messages =
     [''I want to register'', ''Jane Doe'', ''jane@example.com'', ''+201234567890'',
      ''Engineering'', ''Passw0rd'']"

definition jane_kyc :: "(string \<times> string) list" where
  "jane_kyc =
     [(''name'', ''Jane Doe''), (''email'', ''jane@example.com''),
      (''mobile'', ''+201234567890''), (''faculty'', ''Engineering''),
      (''password'', ''Passw0rd'')]"

definition jane_doc :: user_doc where
  "jane_doc =
     \<lparr> u_id = ObjectId ''65f000000000000000000001'',
       u_username = Some ''jane@example.com'',
       u_email = Some ''jane@example.com'',
       u_password_hash = ''$2b$Passw0rd'',
       u_name = Some ''Jane Doe'',
       u_mobile = Some ''+201234567890'',
       u_faculty = Some ''Engineering'',
       u_role = Some ''user'',
       u_is_active = True,
       u_created_at = 1000,
       u_last_login = None,
       u_session_id = ''conv-1'' \<rparr>"

definition jane_token :: token where
  "jane_token =
     Signed \<lparr> p_user_id = ''65f000000000000000000001'',
              p_username = Some ''jane@example.com'',
              p_email = Some ''jane@example.com'',
              p_role = ''user'',
              p_exp = 87400,
              p_iat = 1000,
              p_session_id = ''conv-1'' \<rparr>"

definition jane_session :: session_doc where
  "jane_session =
     \<lparr> s_id = ObjectId ''65f000000000000000000002'',
       s_user_id = ''65f000000000000000000001'',
       s_token = jane_token,
       s_session_id = ''conv-1'',
       s_created_at = 1000,
       s_expires_at = 87400,
       s_is_active = True,
       s_logout_at = None \<rparr>"

definition world_registered :: world where
  "world_registered = \<lparr> mongo = Up, users = [jane_doc], sessions = [], kyc_emails = [] \<rparr>"

definition world_issued :: world where
  "world_issued =
     \<lparr> mongo = Up, users = [jane_doc], sessions = [jane_session], kyc_emails = [] \<rparr>"

text \<open>The conversation while the registration dialogue is at a step.\<close>

definition jane_conv :: "int \<Rightarrow> (string \<times> string) list \<Rightarrow> conv" where
  "jane_conv step data =
     (initial_conv (Some ''conv-1''))
       \<lparr>kyc_step := step, kyc_data := data, auth_mode := Some ''register''\<rparr>"

definition jane_conv_registered :: conv where
  "jane_conv_registered =
     (initial_conv (Some ''conv-1''))
       \<lparr>is_authenticated := True, user_role := Some ''user'', jwt_token := Some jane_token,
        c_user_id := Some ''65f000000000000000000001'',
        c_email := Some ''jane@example.com'', c_name := Some ''Jane Doe''\<rparr>"

text \<open>
  Later logins of Jane, each at its own time and with its own session identifier; her
  conversation \<open>conv-2\<close> at login step 2; a store whose user document is kept under
  a string identifier, with a given role; and a conversation as \<open>set_authenticated_user\<close>
  leaves it.
\<close>

definition nth_login :: "nat \<Rightarrow> env" where
  "nth_login n =
     example_env\<lparr>now := 2000 + n, new_session_oid := replicate (Suc n) (CHR ''a'')\<rparr>"

definition jane_login_conv :: conv where
  "jane_login_conv =
     (initial_conv (Some ''conv-2''))
       \<lparr>kyc_step := 2, kyc_data := [(''email'', ''jane@example.com'')],
        auth_mode := Some ''login''\<rparr>"

definition string_id_world :: "string \<Rightarrow> world" where
  "string_id_world r =
     world_issued\<lparr>users := [jane_doc\<lparr>u_id := StrId ''65f000000000000000000001'',
                                    u_role := Some r\<rparr>]\<rparr>"

definition logged_in_conv :: conv where
  "logged_in_conv =
     fst (set_authenticated_user (initial_conv (Some ''conv-1'')) jane_token
            (view_of_login jane_doc))"

text \<open>
  Jane after an outside action made her an admin; the store that holds her so; and the
  store and conversation right after she has logged in through the dialogue of
  conversation \<open>conv-2\<close>.
\<close>

definition admin_doc :: user_doc where
  "admin_doc = jane_doc\<lparr>u_role := Some ''admin''\<rparr>"

definition admin_world :: world where
  "admin_world = world_issued\<lparr>users := [admin_doc]\<rparr>"

definition admin_login :: "world \<times> conv" where
  "admin_login = fst (handle_kyc (nth_login 0) admin_world jane_login_conv ''Passw0rd'')"

text \<open>The idle-state invariant of a conversation.\<close>

definition idle_inv :: "conv \<Rightarrow> bool" where
  "idle_inv c =
     ((kyc_step c = 0 \<longrightarrow> auth_mode c = None) \<and> (auth_mode c = None \<longrightarrow> kyc_data c = []))"

section \<open>Properties of the intent classifier\<close>

lemma starts_with_iff: "starts_with k s \<longleftrightarrow> (\<exists>q. s = k @ q)"
  by (induction k s rule: starts_with.induct) auto

lemma contains_iff: "contains k s \<longleftrightarrow> (\<exists>p q. s = p @ k @ q)"
proof (induction s)
  case Nil
  then show ?case by auto
next
  case (Cons c cs)
  show ?case
  proof
    assume "contains k (c # cs)"
    then consider "starts_with k (c # cs)" | "contains k cs" by auto
    then show "\<exists>p q. c # cs = p @ k @ q"
    proof cases
      case 1
      then obtain q where "c # cs = k @ q" using starts_with_iff by blast
      then have "c # cs = [] @ k @ q" by simp
      then show ?thesis by blast
    next
      case 2
      then obtain p q where "cs = p @ k @ q" using Cons.IH by blast
      then have "c # cs = (c # p) @ k @ q" by simp
      then show ?thesis by blast
    qed
  next
    assume "\<exists>p q. c # cs = p @ k @ q"
    then obtain p q where pq: "c # cs = p @ k @ q" by blast
    show "contains k (c # cs)"
    proof (cases p)
      case Nil
      with pq have "starts_with k (c # cs)" using starts_with_iff by auto
      then show ?thesis by simp
    next
      case (Cons a p')
      with pq have "cs = p' @ k @ q" by simp
      then have "contains k cs" using Cons.IH by blast
      then show ?thesis by simp
    qed
  qed
qed

lemma any_keyword_in_iff: "any_keyword_in ks s \<longleftrightarrow> (\<exists>k\<in>set ks. contains k s)"
  by (induction ks) auto

lemma fallback_login: "check_application_intent ''I want to login'' = Some ''login''"
  by code_simp

text \<open>
  Claim C8, as the code has it. The classifier always returns one of \<open>register\<close>,
  \<open>login\<close> and \<open>None\<close>. Without a language model, or when its call raises, the result
  is the keyword fallback: \<open>login\<close> if a login phrase occurs in the lower-cased,
  stripped message, otherwise \<open>register\<close> if a register phrase occurs, otherwise
  \<open>None\<close>. When the model answers with anything but REGISTER or LOGIN (stripped, in
  upper case) the result is \<open>None\<close> and the keywords are not consulted. With the
  model failing, "I want to login" is classified as \<open>login\<close>.
\<close>

theorem classifier_fallback:
  "(detect_application_intent l m = Some ''register'' \<or>
    detect_application_intent l m = Some ''login'' \<or>
    detect_application_intent l m = None) \<and>
   detect_application_intent NoLLM m = check_application_intent m \<and>
   (invoke m = None \<longrightarrow>
      detect_application_intent (LLM invoke) m = check_application_intent m) \<and>
   (invoke m = Some answer \<and> upper (strip answer) \<noteq> ''REGISTER'' \<and>
    upper (strip answer) \<noteq> ''LOGIN'' \<longrightarrow>
      detect_application_intent (LLM invoke) m = None) \<and>
   check_application_intent m =
     (if \<exists>k\<in>set login_keywords. \<exists>p q. strip (lower m) = p @ k @ q then Some ''login''
      else if \<exists>k\<in>set register_keywords. \<exists>p q. strip (lower m) = p @ k @ q
      then Some ''register'' else None) \<and>
   detect_application_intent NoLLM ''I want to login'' = Some ''login'' \<and>
   (invoke ''I want to login'' = None \<longrightarrow>
      detect_application_intent (LLM invoke) ''I want to login'' = Some ''login'')"
proof -
  have chk: "check_application_intent m =
     (if \<exists>k\<in>set login_keywords. \<exists>p q. strip (lower m) = p @ k @ q then Some ''login''
      else if \<exists>k\<in>set register_keywords. \<exists>p q. strip (lower m) = p @ k @ q
      then Some ''register'' else None)"
    unfolding check_application_intent_def Let_def any_keyword_in_iff contains_iff by simp
  have range_chk: "check_application_intent m = Some ''register'' \<or>
      check_application_intent m = Some ''login'' \<or> check_application_intent m = None"
    unfolding check_application_intent_def Let_def by simp
  have range: "detect_application_intent l m = Some ''register'' \<or>
    detect_application_intent l m = Some ''login'' \<or>
    detect_application_intent l m = None"
    using range_chk
    by (auto simp: detect_application_intent_def Let_def split: llm.splits option.splits)
  show ?thesis
    using chk range fallback_login
    by (simp add: detect_application_intent_def)
qed

theorem classifier_fallback_witness:
  "detect_application_intent (LLM (\<lambda>m. None)) ''I want to login'' = Some ''login''"
  using classifier_fallback [of "LLM (\<lambda>m. None)" "''I want to login''" "\<lambda>m. None"]
  by blast

text \<open>
  Claim C8 as stated fails on an unmapped answer: the model answers "MAYBE" to
  "I want to login"; the classifier returns \<open>None\<close>, the keyword fallback would have
  returned \<open>login\<close>.
\<close>

theorem classifier_unmapped_counterexample:
  "detect_application_intent (LLM (\<lambda>m. Some ''MAYBE'')) ''I want to login'' = None \<and>
   check_application_intent ''I want to login'' = Some ''login''"
  by code_simp

section \<open>The worked conversation, step by step\<close>

lemma jane_name: "validate_name ''Jane Doe'' \<and> strip ''Jane Doe'' = ''Jane Doe''"
  by code_simp

lemma jane_email:
  "is_valid_email ''jane@example.com'' \<and>
   lower (strip ''jane@example.com'') = ''jane@example.com''"
  by code_simp

lemma jane_mobile:
  "is_valid_mobile ''+201234567890'' \<and> strip ''+201234567890'' = ''+201234567890''"
  by code_simp

lemma jane_faculty:
  "validate_faculty ''Engineering'' \<and> strip ''Engineering'' = ''Engineering''"
  by code_simp

lemma jane_password:
  "is_valid_password ''Passw0rd'' \<and> strip ''Passw0rd'' = ''Passw0rd''"
  by code_simp

lemma jane_intent:
  "detect_application_intent (LLM (\<lambda>m. Some ''REGISTER'')) ''I want to register'' =
     Some ''register''"
  by code_simp

lemma jane_registered:
  "register_user example_env empty_world ''conv-1'' jane_kyc =
     (world_registered, Some ''65f000000000000000000001'')"
  by (simp add: register_user_def example_env_def empty_world_def jane_kyc_def
      world_registered_def jane_doc_def hash_password_def Let_def)

lemma jane_issued:
  "generate_jwt_token example_env world_registered ''conv-1'' jane_doc =
     (world_issued, Some jane_token)"
  by (simp add: generate_jwt_token_def example_env_def world_registered_def world_issued_def
      jane_doc_def jane_token_def jane_session_def jwt_encode_def role_or_default_def
      TOKEN_EXPIRY_HOURS_def Let_def)

lemma jane_completed:
  "complete_user_registration example_env empty_world (jane_conv 5 jane_kyc) jane_kyc =
     ((world_issued, jane_conv_registered\<lparr>kyc_step := 5, kyc_data := jane_kyc,
          auth_mode := Some ''register''\<rparr>),
      (True, msg_registration_ok (Some ''Jane Doe'')))"
proof -
  have sid: "session_id_of (jane_conv 5 jane_kyc) = ''conv-1''"
    by (simp add: session_id_of_def jane_conv_def initial_conv_def)
  have found: "find (\<lambda>u. u_id u = ObjectId ''65f000000000000000000001'')
      (users world_registered) = Some jane_doc"
    by (simp add: world_registered_def jane_doc_def)
  have up: "mongo empty_world = Up" by (simp add: empty_world_def)
  have fields: "str_of (u_id jane_doc) = ''65f000000000000000000001'' \<and>
    u_email jane_doc = Some ''jane@example.com'' \<and> u_name jane_doc = Some ''Jane Doe'' \<and>
    role_or_default jane_doc = ''user''"
    by (simp add: jane_doc_def role_or_default_def)
  show ?thesis
    unfolding complete_user_registration_def sid jane_registered
    by (simp add: up found jane_issued fields jane_conv_def jane_conv_registered_def
        initial_conv_def)
qed


lemma step1:
  "handle_kyc example_env empty_world (initial_conv (Some ''conv-1'')) ''I want to register'' =
     ((empty_world, jane_conv 1 []), (True, Some ''register'', Some msg_register_start))"
proof -
  have "language_model example_env = LLM (\<lambda>m. Some ''REGISTER'')"
    by (simp add: example_env_def)
  then show ?thesis
    by (simp add: handle_kyc_def jane_intent jane_conv_def initial_conv_def Let_def)
qed

lemma step2:
  "handle_kyc example_env empty_world (jane_conv 1 []) ''Jane Doe'' =
     ((empty_world, jane_conv 2 [(''name'', ''Jane Doe'')]),
      (True, Some ''register'', Some (msg_name_ok ''Jane Doe'')))"
  by (simp add: handle_kyc_def handle_registration_flow_def jane_name jane_conv_def
      initial_conv_def jane_kyc_def)

lemma step3:
  "handle_kyc example_env empty_world (jane_conv 2 [(''name'', ''Jane Doe'')]) ''jane@example.com'' =
     ((empty_world, jane_conv 3 [(''name'', ''Jane Doe''), (''email'', ''jane@example.com'')]),
      (True, Some ''register'', Some msg_email_ok))"
proof -
  have "\<not> email_exists example_env empty_world ''jane@example.com''"
    by (simp add: email_exists_def empty_world_def example_env_def)
  then show ?thesis
    by (simp add: handle_kyc_def handle_registration_flow_def jane_email jane_conv_def
        initial_conv_def jane_kyc_def)
qed

lemma step4:
  "handle_kyc example_env empty_world (jane_conv 3 [(''name'', ''Jane Doe''), (''email'', ''jane@example.com'')]) ''+201234567890'' =
     ((empty_world, jane_conv 4 [(''name'', ''Jane Doe''), (''email'', ''jane@example.com''),
        (''mobile'', ''+201234567890'')]),
      (True, Some ''register'', Some msg_mobile_ok))"
  by (simp add: handle_kyc_def handle_registration_flow_def jane_mobile jane_conv_def
      initial_conv_def jane_kyc_def)

lemma step5:
  "handle_kyc example_env empty_world (jane_conv 4 [(''name'', ''Jane Doe''), (''email'', ''jane@example.com''),
        (''mobile'', ''+201234567890'')]) ''Engineering'' =
     ((empty_world, jane_conv 5 [(''name'', ''Jane Doe''), (''email'', ''jane@example.com''),
        (''mobile'', ''+201234567890''), (''faculty'', ''Engineering'')]),
      (True, Some ''register'', Some msg_faculty_ok))"
  by (simp add: handle_kyc_def handle_registration_flow_def jane_faculty jane_conv_def
      initial_conv_def jane_kyc_def)

lemma step6:
  "handle_kyc example_env empty_world (jane_conv 5 [(''name'', ''Jane Doe''), (''email'', ''jane@example.com''),
        (''mobile'', ''+201234567890''), (''faculty'', ''Engineering'')]) ''Passw0rd'' =
     ((world_issued, jane_conv_registered),
      (True, Some ''register_complete'', Some (msg_registration_ok (Some ''Jane Doe''))))"
proof -
  have data: "AList.update ''password'' ''Passw0rd'' [(''name'', ''Jane Doe''), (''email'', ''jane@example.com''),
        (''mobile'', ''+201234567890''), (''faculty'', ''Engineering'')] = jane_kyc"
    by (simp add: jane_kyc_def)
  have c: "(jane_conv 5 [(''name'', ''Jane Doe''), (''email'', ''jane@example.com''),
        (''mobile'', ''+201234567890''), (''faculty'', ''Engineering'')])\<lparr>kyc_data := jane_kyc\<rparr> =
      jane_conv 5 jane_kyc"
    by (simp add: jane_conv_def)
  have mode: "auth_mode (jane_conv 5 [(''name'', ''Jane Doe''), (''email'', ''jane@example.com''),
        (''mobile'', ''+201234567890''), (''faculty'', ''Engineering'')]) = Some ''register'' \<and>
     kyc_step (jane_conv 5 [(''name'', ''Jane Doe''), (''email'', ''jane@example.com''),
        (''mobile'', ''+201234567890''), (''faculty'', ''Engineering'')]) = 5 \<and>
     kyc_data (jane_conv 5 [(''name'', ''Jane Doe''), (''email'', ''jane@example.com''),
        (''mobile'', ''+201234567890''), (''faculty'', ''Engineering'')]) =
       [(''name'', ''Jane Doe''), (''email'', ''jane@example.com''),
        (''mobile'', ''+201234567890''), (''faculty'', ''Engineering'')]"
    by (simp add: jane_conv_def)
  have kd: "[(''name'', ''Jane Doe''), (''email'', ''jane@example.com''),
      (''mobile'', ''+201234567890''), (''faculty'', ''Engineering''),
      (''password'', ''Passw0rd'')] = jane_kyc"
    by (simp add: jane_kyc_def)
  have final: "jane_conv_registered\<lparr>kyc_step := 0, kyc_data := [], auth_mode := None\<rparr> =
       jane_conv_registered"
    by (simp add: jane_conv_registered_def initial_conv_def)
  show ?thesis
    unfolding handle_kyc_def handle_registration_flow_def
    by (simp add: mode jane_password data kd c jane_completed final Let_def)
qed

lemma registration_run:
  "run (empty_world, initial_conv (Some ''conv-1''))
       (map (Pair example_env) registration_messages) =
     [(empty_world, jane_conv 1 []), (empty_world, jane_conv 2 [(''name'', ''Jane Doe'')]),
      (empty_world, jane_conv 3 [(''name'', ''Jane Doe''), (''email'', ''jane@example.com'')]), (empty_world, jane_conv 4 [(''name'', ''Jane Doe''), (''email'', ''jane@example.com''),
        (''mobile'', ''+201234567890'')]),
      (empty_world, jane_conv 5 [(''name'', ''Jane Doe''), (''email'', ''jane@example.com''),
        (''mobile'', ''+201234567890''), (''faculty'', ''Engineering'')]), (world_issued, jane_conv_registered)]"
  unfolding registration_messages_def
  by (simp add: step1 step2 step3 step4 step5 step6)

text \<open>
  Claim C2, at the scenario's input. The six messages drive \<open>kyc_step\<close> through
  1, 2, 3, 4, 5 and back to 0 and leave \<open>auth_mode\<close> empty and \<open>is_authenticated\<close>
  true; the token is stored under \<open>jwt_token\<close>, while \<open>auth_token\<close> and
  \<open>authenticated_user\<close> stay \<open>None\<close>.
\<close>

theorem registration_scenario_trace:
  "map (kyc_step \<circ> snd)
     (run (empty_world, initial_conv (Some ''conv-1''))
          (map (Pair example_env) registration_messages)) = [1, 2, 3, 4, 5, 0] \<and>
   snd (last (run (empty_world, initial_conv (Some ''conv-1''))
          (map (Pair example_env) registration_messages))) = jane_conv_registered \<and>
   auth_mode jane_conv_registered = None \<and>
   is_authenticated jane_conv_registered \<and>
   jwt_token jane_conv_registered = Some jane_token \<and>
   auth_token jane_conv_registered = None \<and>
   authenticated_user jane_conv_registered = None"
  unfolding registration_run
  by (simp add: jane_conv_def jane_conv_registered_def initial_conv_def)

text \<open>
  In a store whose users all sit under an \<open>ObjectId\<close>, as \<open>register_user\<close> leaves
  them, no token verifies.
\<close>

lemma verify_token_fails_on_object_ids:
  assumes "\<forall>u\<in>set (users w). \<exists>h. u_id u = ObjectId h"
  shows "verify_token e w tok = None"
proof -
  have "find (\<lambda>u. u_id u = StrId x \<and> u_is_active u) (users w) = None" for x
    using assms by (auto simp: find_None_iff)
  then show ?thesis
    by (simp add: verify_token_def split: sum.splits option.splits)
qed

lemma register_user_object_ids:
  assumes "\<forall>u\<in>set (users w). \<exists>h. u_id u = ObjectId h"
  shows "\<forall>u\<in>set (users (fst (register_user e w sid data))). \<exists>h. u_id u = ObjectId h"
  using assms
  by (auto simp: register_user_def Let_def split: option.splits if_splits)

lemma jane_session_live:
  "find (\<lambda>s. s_token s = jane_token \<and> s_is_active s \<and> now example_env < s_expires_at s)
        (sessions world_issued) = Some jane_session"
  by (simp add: world_issued_def jane_session_def example_env_def)

text \<open>
  Claim C1, at a user registered by \<open>register_user\<close>. The user is stored under an
  \<open>ObjectId\<close> and is active; the token issued to her decodes before its expiry and
  its session document is found; the user is then looked up under the string form of
  the identifier, no document matches, and \<open>verify_token\<close> returns \<open>None\<close>.
\<close>

theorem issued_token_not_verified:
  "register_user example_env empty_world ''conv-1'' jane_kyc =
     (world_registered, Some ''65f000000000000000000001'') \<and>
   find (\<lambda>u. u_id u = ObjectId ''65f000000000000000000001'') (users world_registered) =
     Some jane_doc \<and>
   u_is_active jane_doc \<and>
   generate_jwt_token example_env world_registered ''conv-1'' jane_doc =
     (world_issued, Some jane_token) \<and>
   users world_issued = [jane_doc] \<and>
   jwt_decode (now example_env) jane_token =
     Inr \<lparr> p_user_id = ''65f000000000000000000001'',
           p_username = Some ''jane@example.com'', p_email = Some ''jane@example.com'',
           p_role = ''user'', p_exp = 87400, p_iat = 1000, p_session_id = ''conv-1'' \<rparr> \<and>
   find (\<lambda>s. s_token s = jane_token \<and> s_is_active s \<and> now example_env < s_expires_at s)
        (sessions world_issued) = Some jane_session \<and>
   find (\<lambda>u. u_id u = StrId (s_user_id jane_session) \<and> u_is_active u) (users world_issued) =
     None \<and>
   verify_token example_env world_issued jane_token = None"
proof -
  have dec: "jwt_decode (now example_env) jane_token =
     Inr \<lparr> p_user_id = ''65f000000000000000000001'',
           p_username = Some ''jane@example.com'', p_email = Some ''jane@example.com'',
           p_role = ''user'', p_exp = 87400, p_iat = 1000, p_session_id = ''conv-1'' \<rparr>"
    by (simp add: jwt_decode_def jane_token_def example_env_def)
  have nouser: "find (\<lambda>u. u_id u = StrId (s_user_id jane_session) \<and> u_is_active u)
      (users world_issued) = None"
    by (simp add: world_issued_def jane_doc_def)
  have up: "mongo world_issued = Up" by (simp add: world_issued_def)
  have v: "verify_token example_env world_issued jane_token = None"
    unfolding verify_token_def dec by (simp add: up jane_session_live nouser)
  have found: "find (\<lambda>u. u_id u = ObjectId ''65f000000000000000000001'')
      (users world_registered) = Some jane_doc"
    by (simp add: world_registered_def jane_doc_def)
  have act: "u_is_active jane_doc \<and> users world_issued = [jane_doc]"
    by (simp add: jane_doc_def world_issued_def)
  show ?thesis
    using jane_registered found act jane_issued dec jane_session_live nouser v by blast
qed

section \<open>Registration\<close>

lemma find_Some_holds: "find P xs = Some x \<Longrightarrow> x \<in> set xs \<and> P x"
  by (induction xs) (auto split: if_splits)

text \<open>
  Claim C3, as the code has it. With the store up, a password in the data that bcrypt
  hashes, and an unused identifier, \<open>register_user\<close> returns \<open>None\<close> and leaves the
  store as it is exactly when some record, active or not, has the email as its email or
  its username; otherwise it appends a record with the hashed password, role \<open>user\<close>,
  the active flag set and no last login, and returns the new identifier.
\<close>

theorem register_user_rejects_any_record:
  "mongo w = Up \<Longrightarrow> map_of data ''password'' = Some pw \<Longrightarrow> hashpw e pw = Some h \<Longrightarrow>
   \<forall>u\<in>set (users w). u_id u \<noteq> ObjectId (new_user_oid e) \<Longrightarrow>
   register_user e w sid data =
     (if \<exists>u\<in>set (users w). u_email u = map_of data ''email'' \<or>
                            u_username u = map_of data ''email''
      then (w, None)
      else (w\<lparr>users := users w @
              [\<lparr> u_id = ObjectId (new_user_oid e),
                 u_username = map_of data ''email'',
                 u_email = map_of data ''email'',
                 u_password_hash = h,
                 u_name = map_of data ''name'',
                 u_mobile = map_of data ''mobile'',
                 u_faculty = map_of data ''faculty'',
                 u_role = Some ''user'',
                 u_is_active = True,
                 u_created_at = now e,
                 u_last_login = None,
                 u_session_id = sid \<rparr>]\<rparr>,
            Some (new_user_oid e)))"
proof -
  assume up: "mongo w = Up" and pw: "map_of data ''password'' = Some pw"
    and h: "hashpw e pw = Some h" and fresh: "\<forall>u\<in>set (users w). u_id u \<noteq> ObjectId (new_user_oid e)"
  let ?P = "\<lambda>u. u_email u = map_of data ''email'' \<or> u_username u = map_of data ''email''"
  show ?thesis
  proof (cases "find ?P (users w)")
    case None
    then have no: "\<not> (\<exists>u\<in>set (users w). ?P u)" by (simp add: find_None_iff)
    from fresh have nf: "\<not> list_ex (\<lambda>u. u_id u = ObjectId (new_user_oid e)) (users w)"
      by (simp add: list_ex_iff)
    have "register_user e w sid data =
       (w\<lparr>users := users w @
              [\<lparr> u_id = ObjectId (new_user_oid e),
                 u_username = map_of data ''email'',
                 u_email = map_of data ''email'',
                 u_password_hash = h,
                 u_name = map_of data ''name'',
                 u_mobile = map_of data ''mobile'',
                 u_faculty = map_of data ''faculty'',
                 u_role = Some ''user'',
                 u_is_active = True,
                 u_created_at = now e,
                 u_last_login = None,
                 u_session_id = sid \<rparr>]\<rparr>,
            Some (new_user_oid e))"
      unfolding register_user_def hash_password_def Let_def
      by (simp only: None up pw h nf option.case if_False if_True user_doc.simps simp_thms)
    with no show ?thesis by (simp only: if_False)
  next
    case (Some u)
    then have "\<exists>u\<in>set (users w). ?P u"
      using find_Some_holds by fast
    with Some up show ?thesis
      by (simp add: register_user_def)
  qed
qed

text \<open>
  The registration of Jane against the empty store goes through.
\<close>

theorem register_user_rejects_any_record_witness:
  "register_user example_env empty_world ''conv-1'' jane_kyc =
     (world_registered, Some ''65f000000000000000000001'')"
proof -
  have h1: "mongo empty_world = Up" by (simp add: empty_world_def)
  have h2: "map_of jane_kyc ''password'' = Some ''Passw0rd''" by (simp add: jane_kyc_def)
  have h3: "hashpw example_env ''Passw0rd'' = Some ''$2b$Passw0rd''"
    by (simp add: example_env_def)
  have h4: "\<forall>u\<in>set (users empty_world). u_id u \<noteq> ObjectId (new_user_oid example_env)"
    by (simp add: empty_world_def)
  show ?thesis
    using register_user_rejects_any_record [OF h1 h2 h3 h4, of "''conv-1''"]
    by (simp add: empty_world_def world_registered_def jane_doc_def jane_kyc_def example_env_def)
qed

text \<open>
  Claim C3 as stated fails on a deactivated record: the store holds Jane's record with
  the active flag cleared and no active record of her email, and \<open>register_user\<close>
  still rejects.
\<close>

theorem register_user_inactive_counterexample:
  "\<not> list_ex (\<lambda>u. u_is_active u \<and> (u_email u = Some ''jane@example.com'' \<or>
                                     u_username u = Some ''jane@example.com''))
        (users (world_registered\<lparr>users := [jane_doc\<lparr>u_is_active := False\<rparr>]\<rparr>)) \<and>
   register_user (example_env\<lparr>new_user_oid := ''65f000000000000000000003''\<rparr>)
       (world_registered\<lparr>users := [jane_doc\<lparr>u_is_active := False\<rparr>]\<rparr>) ''conv-2'' jane_kyc =
     (world_registered\<lparr>users := [jane_doc\<lparr>u_is_active := False\<rparr>]\<rparr>, None)"
  by (simp add: register_user_def world_registered_def jane_doc_def jane_kyc_def)

section \<open>Session retention\<close>

lemma generate_jwt_token_mongo:
  "mongo (fst (generate_jwt_token e w sid user)) = mongo w"
  by (simp add: generate_jwt_token_def Let_def)

lemma length_filter_newest_first:
  "length (filter P (rev (sort_key f xs))) = length (filter P xs)"
proof -
  have "filter P (rev (sort_key f xs)) = rev (sort_key f (filter P xs))"
    by (simp add: rev_filter [symmetric] filter_sort)
  then show ?thesis by simp
qed

lemma filter_own_ids: "filter (\<lambda>s. f s \<notin> set (map f ys)) ys = []"
  by (induction ys) (auto simp: filter_empty_conv)

lemma survivors_at_most_4:
  "length (filter (\<lambda>s. f s \<notin> set (map f (drop 4 srt))) srt) \<le> 4"
proof -
  let ?P = "\<lambda>s. f s \<notin> set (map f (drop 4 srt))"
  have "filter ?P srt = filter ?P (take 4 srt) @ filter ?P (drop 4 srt)"
    by (metis append_take_drop_id filter_append)
  also have "filter ?P (drop 4 srt) = []" by (rule filter_own_ids)
  finally have "length (filter ?P srt) = length (filter ?P (take 4 srt))" by simp
  also have "\<dots> \<le> length (take 4 srt)" by (rule length_filter_le)
  also have "\<dots> \<le> 4" by simp
  finally show ?thesis .
qed

lemma generate_jwt_token_sessions:
  assumes "mongo w = Up"
  shows "sessions (fst (generate_jwt_token e w sid user)) =
     filter (\<lambda>s. s_id s \<notin> set (map s_id (drop 4 (rev (sort_key s_created_at
                (sessions_of (str_of (u_id user)) w)))))) (sessions w) @
     (if list_ex (\<lambda>s. s_id s = ObjectId (new_session_oid e))
           (filter (\<lambda>s. s_id s \<notin> set (map s_id (drop 4 (rev (sort_key s_created_at
                (sessions_of (str_of (u_id user)) w)))))) (sessions w))
      then []
      else [\<lparr> s_id = ObjectId (new_session_oid e),
              s_user_id = str_of (u_id user),
              s_token = jwt_encode \<lparr> p_user_id = str_of (u_id user),
                   p_username = u_username user,
                   p_email = u_email user,
                   p_role = role_or_default user,
                   p_exp = now e + TOKEN_EXPIRY_HOURS * 3600,
                   p_iat = now e,
                   p_session_id = sid \<rparr>,
              s_session_id = sid,
              s_created_at = now e,
              s_expires_at = now e + TOKEN_EXPIRY_HOURS * 3600,
              s_is_active = True,
              s_logout_at = None \<rparr>])"
proof (cases "drop 4 (rev (sort_key s_created_at (sessions_of (str_of (u_id user)) w))) = []")
  case True
  with assms show ?thesis
    by (simp add: generate_jwt_token_def Let_def sessions_of_def)
next
  case False
  with assms show ?thesis
    by (simp add: generate_jwt_token_def Let_def sessions_of_def)
qed

lemma one_issue_at_most_5:
  assumes "mongo w = Up"
  shows "length (sessions_of (str_of (u_id user)) (fst (generate_jwt_token e w sid user))) \<le> 5"
proof -
  let ?uid = "str_of (u_id user)"
  let ?srt = "rev (sort_key s_created_at (sessions_of ?uid w))"
  let ?P = "\<lambda>s. s_id s \<notin> set (map s_id (drop 4 ?srt))"
  have "length (filter (\<lambda>s. s_user_id s = ?uid) (filter ?P (sessions w))) =
        length (filter ?P (sessions_of ?uid w))"
    by (simp add: sessions_of_def conj_commute)
  also have "\<dots> = length (filter ?P ?srt)"
    by (simp only: length_filter_newest_first)
  also have "\<dots> \<le> 4" by (rule survivors_at_most_4)
  finally have kept: "length (filter (\<lambda>s. s_user_id s = ?uid) (filter ?P (sessions w))) \<le> 4" .
  have "length (sessions_of ?uid (fst (generate_jwt_token e w sid user))) \<le>
        length (filter (\<lambda>s. s_user_id s = ?uid) (filter ?P (sessions w))) + 1"
    unfolding sessions_of_def [of ?uid "fst (generate_jwt_token e w sid user)"]
      generate_jwt_token_sessions [OF assms]
    by simp
  with kept show ?thesis by linarith
qed

lemma issue_tokens_at_most_5:
  "mongo w = Up \<Longrightarrow> es \<noteq> [] \<Longrightarrow>
   length (sessions_of (str_of (u_id user)) (issue_tokens w sid user es)) \<le> 5"
proof (induction es arbitrary: w)
  case Nil
  then show ?case by simp
next
  case (Cons e es)
  let ?w' = "fst (generate_jwt_token e w sid user)"
  have up: "mongo ?w' = Up" using Cons.prems(1) by (simp add: generate_jwt_token_mongo)
  show ?case
  proof (cases "es = []")
    case True
    then show ?thesis using one_issue_at_most_5 [OF Cons.prems(1)] by simp
  next
    case False
    then show ?thesis using Cons.IH [OF up] by simp
  qed
qed

text \<open>
  Claim C4. With the store up, \<open>generate_jwt_token\<close> leaves the session documents
  whose identifier is not among those of the user's documents after the first four,
  newest first, and appends the new document; after more than five issuances in a row
  to one user at most five of the user's session documents remain.
\<close>

theorem session_retention:
  "mongo w = Up \<Longrightarrow> 5 < length es \<Longrightarrow>
   sessions (fst (generate_jwt_token e w sid user)) =
     filter (\<lambda>s. s_id s \<notin> set (map s_id (drop 4 (rev (sort_key s_created_at
                (sessions_of (str_of (u_id user)) w)))))) (sessions w) @
     (if list_ex (\<lambda>s. s_id s = ObjectId (new_session_oid e))
           (filter (\<lambda>s. s_id s \<notin> set (map s_id (drop 4 (rev (sort_key s_created_at
                (sessions_of (str_of (u_id user)) w)))))) (sessions w))
      then []
      else [\<lparr> s_id = ObjectId (new_session_oid e),
              s_user_id = str_of (u_id user),
              s_token = jwt_encode \<lparr> p_user_id = str_of (u_id user),
                   p_username = u_username user,
                   p_email = u_email user,
                   p_role = role_or_default user,
                   p_exp = now e + TOKEN_EXPIRY_HOURS * 3600,
                   p_iat = now e,
                   p_session_id = sid \<rparr>,
              s_session_id = sid,
              s_created_at = now e,
              s_expires_at = now e + TOKEN_EXPIRY_HOURS * 3600,
              s_is_active = True,
              s_logout_at = None \<rparr>]) \<and>
   length (sessions_of (str_of (u_id user)) (issue_tokens w sid user es)) \<le> 5"
proof -
  assume up: "mongo w = Up" and n: "5 < length es"
  from n have "es \<noteq> []" by auto
  with up show ?thesis
    using generate_jwt_token_sessions [OF up] issue_tokens_at_most_5 by blast
qed

text \<open>
  Six logins of Jane after her registration.
\<close>

theorem session_retention_witness:
  "length (sessions_of ''65f000000000000000000001''
     (issue_tokens world_registered ''conv-1'' jane_doc (map nth_login [0, 1, 2, 3, 4, 5])))
   \<le> 5"
proof -
  have h1: "mongo world_registered = Up" by (simp add: world_registered_def)
  have h2: "5 < length (map nth_login [0, 1, 2, 3, 4, 5])" by simp
  have uid: "str_of (u_id jane_doc) = ''65f000000000000000000001''"
    by (simp add: jane_doc_def)
  show ?thesis
    using session_retention [OF h1 h2, of "nth_login 0" "''conv-1''" jane_doc]
    unfolding uid by blast
qed

section \<open>Token verification\<close>

lemma verify_token_live:
  "\<not> (\<exists>s\<in>set (sessions w). s_token s = tok \<and> s_is_active s \<and> now e < s_expires_at s)
   \<Longrightarrow> verify_token e w tok = None"
proof -
  assume a: "\<not> (\<exists>s\<in>set (sessions w). s_token s = tok \<and> s_is_active s \<and> now e < s_expires_at s)"
  then have "find (\<lambda>s. s_token s = tok \<and> s_is_active s \<and> now e < s_expires_at s) (sessions w) = None"
    by (simp add: find_None_iff)
  then show ?thesis
    by (simp add: verify_token_def split: sum.splits)
qed

lemma update_first_deactivates:
  "distinct (map s_token xs) \<Longrightarrow>
   s \<in> set (update_first (\<lambda>s. s_token s = tok)
              (\<lambda>s. s\<lparr>s_is_active := False, s_logout_at := Some t\<rparr>) xs) \<Longrightarrow>
   s_token s = tok \<Longrightarrow> \<not> s_is_active s"
proof (induction xs)
  case Nil
  then show ?case by simp
next
  case (Cons x xs)
  show ?case
  proof (cases "s_token x = tok")
    case True
    with Cons.prems(1) have "tok \<notin> s_token ` set xs" by simp
    then have "\<forall>y\<in>set xs. s_token y \<noteq> tok" by blast
    with True Cons.prems(2,3) show ?thesis by auto
  next
    case False
    with Cons show ?thesis by auto
  qed
qed

text \<open>
  Claim C5. \<open>verify_token\<close> returns \<open>None\<close> for a token without a session document
  that carries this token, is active and expires strictly after now: when every document
  of the token is inactive, when no document carries it, when its documents expire at
  exactly now, and, token texts being distinct in the store, after \<open>logout_user\<close>.
\<close>

theorem verify_token_needs_live_session:
  "(\<not> (\<exists>s\<in>set (sessions w). s_token s = tok \<and> s_is_active s \<and> now e < s_expires_at s)
      \<longrightarrow> verify_token e w tok = None) \<and>
   ((\<forall>s\<in>set (sessions w). s_token s = tok \<longrightarrow> \<not> s_is_active s)
      \<longrightarrow> verify_token e w tok = None) \<and>
   ((\<forall>s\<in>set (sessions w). s_token s \<noteq> tok) \<longrightarrow> verify_token e w tok = None) \<and>
   ((\<forall>s\<in>set (sessions w). s_token s = tok \<longrightarrow> s_expires_at s = now e)
      \<longrightarrow> verify_token e w tok = None) \<and>
   (mongo w = Up \<and> distinct (map s_token (sessions w))
      \<longrightarrow> verify_token e (fst (logout_user e' w tok)) tok = None)"
proof -
  have revoked: "verify_token e (fst (logout_user e' w tok)) tok = None"
    if up: "mongo w = Up" and d: "distinct (map s_token (sessions w))"
  proof (cases "find (\<lambda>s. s_token s = tok) (sessions w)")
    case None
    then have "\<forall>s\<in>set (sessions w). s_token s \<noteq> tok" by (simp add: find_None_iff)
    then have "verify_token e w tok = None" using verify_token_live by blast
    with None up show ?thesis by (simp add: logout_user_def)
  next
    case (Some s0)
    with up have "sessions (fst (logout_user e' w tok)) =
        update_first (\<lambda>s. s_token s = tok)
          (\<lambda>s. s\<lparr>s_is_active := False, s_logout_at := Some (now e')\<rparr>) (sessions w)"
      by (simp add: logout_user_def)
    with d have "\<forall>s\<in>set (sessions (fst (logout_user e' w tok))). s_token s = tok \<longrightarrow> \<not> s_is_active s"
      using update_first_deactivates by metis
    then show ?thesis using verify_token_live by blast
  qed
  show ?thesis
    using verify_token_live [of w tok e] revoked by auto
qed

text \<open>
  Jane's token at the instant its session expires, and after her logout.
\<close>

theorem verify_token_needs_live_session_witness:
  "verify_token (example_env\<lparr>now := 87400\<rparr>) world_issued jane_token = None \<and>
   snd (logout_user example_env world_issued jane_token) \<and>
   verify_token example_env (fst (logout_user example_env world_issued jane_token)) jane_token =
     None"
proof -
  have a: "\<forall>s\<in>set (sessions world_issued).
      s_token s = jane_token \<longrightarrow> s_expires_at s = now (example_env\<lparr>now := 87400\<rparr>)"
    by (simp add: world_issued_def jane_session_def)
  have b: "mongo world_issued = Up \<and> distinct (map s_token (sessions world_issued))"
    by (simp add: world_issued_def)
  have c: "snd (logout_user example_env world_issued jane_token)"
    by (simp add: logout_user_def world_issued_def jane_session_def)
  from a verify_token_needs_live_session
    [of world_issued jane_token "example_env\<lparr>now := 87400\<rparr>" example_env]
  have 1: "verify_token (example_env\<lparr>now := 87400\<rparr>) world_issued jane_token = None"
    by blast
  from b verify_token_needs_live_session
    [of world_issued jane_token example_env example_env]
  have 2: "verify_token example_env (fst (logout_user example_env world_issued jane_token))
      jane_token = None"
    by blast
  from 1 2 c show ?thesis by blast
qed

section \<open>The login dialogue\<close>

lemma email_after_password:
  "map_of (AList.update ''password'' x al) ''email'' = map_of al ''email''"
  by (simp add: update_conv')

lemma attempt_user_login_failure:
  assumes "mongo w \<noteq> NoClient"
    and "authenticate_user e w (session_id_of c) em pw = (w1, tok, ud)"
    and "tok = None \<or> ud = None"
  shows "attempt_user_login e w c em pw = ((w1, c), (False, msg_login_invalid))"
  using assms by (auto simp: attempt_user_login_def split: option.splits)

lemma attempt_user_login_success:
  assumes "mongo w \<noteq> NoClient"
    and "authenticate_user e w (session_id_of c) em pw = (w1, Some t, Some v)"
  shows "attempt_user_login e w c em pw =
     ((w1, fst (set_authenticated_user c t v)), (True, msg_login_ok (v_name v)))"
  using assms by (simp add: attempt_user_login_def set_authenticated_user_def)

text \<open>
  Claim C6. At login step 2, with the email in \<open>kyc_data\<close> and the service
  reachable: when \<open>authenticate_user\<close> gives no token or no user, the conversation is
  at step 1 with empty \<open>kyc_data\<close> and still in login mode, and the reply is the
  invalid-credentials message followed by the request for the email; when it gives
  both, the conversation is reset to step 0, no mode, empty \<open>kyc_data\<close>, and holds
  the token and the user.
\<close>

theorem login_step2_asymmetry:
  assumes step: "kyc_step c = 2" and mode: "auth_mode c = Some ''login''"
    and email: "map_of (kyc_data c) ''email'' = Some em"
    and client: "mongo w \<noteq> NoClient"
    and auth: "authenticate_user e w (session_id_of c) em (strip m) = (w1, tok, ud)"
  shows "(tok = None \<or> ud = None \<longrightarrow>
           fst (fst (handle_kyc e w c m)) = w1 \<and>
           kyc_step (snd (fst (handle_kyc e w c m))) = 1 \<and>
           kyc_data (snd (fst (handle_kyc e w c m))) = [] \<and>
           auth_mode (snd (fst (handle_kyc e w c m))) = Some ''login'' \<and>
           is_authenticated (snd (fst (handle_kyc e w c m))) = is_authenticated c \<and>
           auth_token (snd (fst (handle_kyc e w c m))) = auth_token c \<and>
           snd (handle_kyc e w c m) =
             (True, Some ''login_failed'', Some (msg_login_invalid @ msg_try_again))) \<and>
         (tok = Some t \<and> ud = Some v \<longrightarrow>
           fst (fst (handle_kyc e w c m)) = w1 \<and>
           kyc_step (snd (fst (handle_kyc e w c m))) = 0 \<and>
           auth_mode (snd (fst (handle_kyc e w c m))) = None \<and>
           kyc_data (snd (fst (handle_kyc e w c m))) = [] \<and>
           is_authenticated (snd (fst (handle_kyc e w c m))) \<and>
           auth_token (snd (fst (handle_kyc e w c m))) = Some t \<and>
           authenticated_user (snd (fst (handle_kyc e w c m))) = Some v \<and>
           snd (handle_kyc e w c m) =
             (True, Some ''login_complete'', Some (msg_login_ok (v_name v))))"
proof -
  let ?c0 = "c\<lparr>kyc_data := AList.update ''password'' (strip m) (kyc_data c)\<rparr>"
  have sid: "session_id_of ?c0 = session_id_of c" by (simp add: session_id_of_def)
  have auth0: "authenticate_user e w (session_id_of ?c0) em (strip m) = (w1, tok, ud)"
    using auth sid by simp
  have flow: "handle_kyc e w c m =
     (case handle_login_flow e w c m of (st, Inr r) \<Rightarrow> (st, r)
      | (st, Inl err) \<Rightarrow> (st, (True, None, None)))"
    using step mode by (simp add: handle_kyc_def)
  have failure: "handle_kyc e w c m =
      ((w1, ?c0\<lparr>kyc_step := 1, kyc_data := []\<rparr>),
       (True, Some ''login_failed'', Some (msg_login_invalid @ msg_try_again)))"
    if "tok = None \<or> ud = None"
    unfolding flow handle_login_flow_def
    using step email attempt_user_login_failure [OF client auth0 that]
    by (simp add: Let_def email_after_password)
  have success: "handle_kyc e w c m =
      ((w1, (fst (set_authenticated_user ?c0 t v))\<lparr>kyc_step := 0, kyc_data := [], auth_mode := None\<rparr>),
       (True, Some ''login_complete'', Some (msg_login_ok (v_name v))))"
    if "tok = Some t \<and> ud = Some v"
    unfolding flow handle_login_flow_def
    using step email that attempt_user_login_success [OF client, of e ?c0 em "strip m" w1 t v] auth0
    by (simp add: Let_def email_after_password)
  show ?thesis
  proof (intro conjI impI)
    assume f: "tok = None \<or> ud = None"
    note h = failure [OF f]
    show "fst (fst (handle_kyc e w c m)) = w1" by (simp add: h)
    show "kyc_step (snd (fst (handle_kyc e w c m))) = 1" by (simp add: h)
    show "kyc_data (snd (fst (handle_kyc e w c m))) = []" by (simp add: h)
    show "auth_mode (snd (fst (handle_kyc e w c m))) = Some ''login''" by (simp add: h mode)
    show "is_authenticated (snd (fst (handle_kyc e w c m))) = is_authenticated c" by (simp add: h)
    show "auth_token (snd (fst (handle_kyc e w c m))) = auth_token c" by (simp add: h)
    show "snd (handle_kyc e w c m) =
             (True, Some ''login_failed'', Some (msg_login_invalid @ msg_try_again))"
      by (simp add: h)
  next
    assume s: "tok = Some t \<and> ud = Some v"
    note h = success [OF s]
    show "fst (fst (handle_kyc e w c m)) = w1" by (simp add: h)
    show "kyc_step (snd (fst (handle_kyc e w c m))) = 0" by (simp add: h)
    show "auth_mode (snd (fst (handle_kyc e w c m))) = None" by (simp add: h)
    show "kyc_data (snd (fst (handle_kyc e w c m))) = []" by (simp add: h)
    show "is_authenticated (snd (fst (handle_kyc e w c m)))"
      by (simp add: h set_authenticated_user_def)
    show "auth_token (snd (fst (handle_kyc e w c m))) = Some t"
      by (simp add: h set_authenticated_user_def)
    show "authenticated_user (snd (fst (handle_kyc e w c m))) = Some v"
      by (simp add: h set_authenticated_user_def)
    show "snd (handle_kyc e w c m) =
             (True, Some ''login_complete'', Some (msg_login_ok (v_name v)))"
      by (simp add: h)
  qed
qed

lemma jane_lower: "lower ''jane@example.com'' = ''jane@example.com''"
  by code_simp

lemma wrong_pass: "strip ''wrong-pass'' = ''wrong-pass''"
  by code_simp

lemma jane_login_rejected:
  "authenticate_user example_env world_issued ''conv-2'' ''jane@example.com'' ''wrong-pass'' =
     (world_issued, None, None)"
  by (simp add: authenticate_user_def jane_lower world_issued_def jane_doc_def
      verify_password_def example_env_def)

lemma jane_login_accepted:
  "fst (snd (authenticate_user (nth_login 0) world_issued ''conv-2'' ''jane@example.com''
       ''Passw0rd'')) =
     Some (Signed \<lparr> p_user_id = ''65f000000000000000000001'',
              p_username = Some ''jane@example.com'', p_email = Some ''jane@example.com'',
              p_role = ''user'', p_exp = 88400, p_iat = 2000, p_session_id = ''conv-2'' \<rparr>) \<and>
   snd (snd (authenticate_user (nth_login 0) world_issued ''conv-2'' ''jane@example.com''
       ''Passw0rd'')) = Some (view_of_login jane_doc)"
  by (simp add: authenticate_user_def jane_lower world_issued_def jane_doc_def
      verify_password_def example_env_def nth_login_def generate_jwt_token_def Let_def
      jane_session_def jane_token_def jwt_encode_def role_or_default_def
      TOKEN_EXPIRY_HOURS_def split_beta)

text \<open>
  Jane logs in with a wrong password, and with the right one.
\<close>

theorem login_step2_asymmetry_witness:
  "kyc_step (snd (fst (handle_kyc example_env world_issued jane_login_conv ''wrong-pass''))) = 1 \<and>
   kyc_data (snd (fst (handle_kyc example_env world_issued jane_login_conv ''wrong-pass''))) = [] \<and>
   auth_mode (snd (fst (handle_kyc example_env world_issued jane_login_conv ''wrong-pass''))) =
     Some ''login'' \<and>
   snd (handle_kyc example_env world_issued jane_login_conv ''wrong-pass'') =
     (True, Some ''login_failed'', Some (msg_login_invalid @ msg_try_again)) \<and>
   kyc_step (snd (fst (handle_kyc (nth_login 0) world_issued jane_login_conv ''Passw0rd''))) = 0 \<and>
   kyc_data (snd (fst (handle_kyc (nth_login 0) world_issued jane_login_conv ''Passw0rd''))) = [] \<and>
   auth_mode (snd (fst (handle_kyc (nth_login 0) world_issued jane_login_conv ''Passw0rd''))) =
     None \<and>
   is_authenticated (snd (fst (handle_kyc (nth_login 0) world_issued jane_login_conv ''Passw0rd'')))"
proof -
  have step: "kyc_step jane_login_conv = 2" and mode: "auth_mode jane_login_conv = Some ''login''"
    and email: "map_of (kyc_data jane_login_conv) ''email'' = Some ''jane@example.com''"
    and sid: "session_id_of jane_login_conv = ''conv-2''"
    by (simp_all add: jane_login_conv_def initial_conv_def session_id_of_def)
  have client: "mongo world_issued \<noteq> NoClient" by (simp add: world_issued_def)
  have rejected: "authenticate_user example_env world_issued (session_id_of jane_login_conv)
      ''jane@example.com'' (strip ''wrong-pass'') = (world_issued, None, None)"
    by (simp add: sid wrong_pass jane_login_rejected)
  have pw: "strip ''Passw0rd'' = ''Passw0rd''" using jane_password by blast
  let ?r = "authenticate_user (nth_login 0) world_issued (session_id_of jane_login_conv)
      ''jane@example.com'' (strip ''Passw0rd'')"
  have accepted: "?r = (fst ?r, fst (snd ?r), snd (snd ?r))" by simp
  have some: "fst (snd ?r) = Some (Signed \<lparr> p_user_id = ''65f000000000000000000001'',
              p_username = Some ''jane@example.com'', p_email = Some ''jane@example.com'',
              p_role = ''user'', p_exp = 88400, p_iat = 2000, p_session_id = ''conv-2'' \<rparr>) \<and>
      snd (snd ?r) = Some (view_of_login jane_doc)"
    unfolding sid pw by (rule jane_login_accepted)
  from login_step2_asymmetry [OF step mode email client rejected]
  have f: "kyc_step (snd (fst (handle_kyc example_env world_issued jane_login_conv ''wrong-pass''))) = 1 \<and>
   kyc_data (snd (fst (handle_kyc example_env world_issued jane_login_conv ''wrong-pass''))) = [] \<and>
   auth_mode (snd (fst (handle_kyc example_env world_issued jane_login_conv ''wrong-pass''))) =
     Some ''login'' \<and>
   snd (handle_kyc example_env world_issued jane_login_conv ''wrong-pass'') =
     (True, Some ''login_failed'', Some (msg_login_invalid @ msg_try_again))"
    by blast
  from some login_step2_asymmetry [OF step mode email client accepted]
  have s: "kyc_step (snd (fst (handle_kyc (nth_login 0) world_issued jane_login_conv ''Passw0rd''))) = 0 \<and>
   kyc_data (snd (fst (handle_kyc (nth_login 0) world_issued jane_login_conv ''Passw0rd''))) = [] \<and>
   auth_mode (snd (fst (handle_kyc (nth_login 0) world_issued jane_login_conv ''Passw0rd''))) =
     None \<and>
   is_authenticated (snd (fst (handle_kyc (nth_login 0) world_issued jane_login_conv ''Passw0rd'')))"
    by blast
  from f s show ?thesis by blast
qed

section \<open>The idle-state invariant\<close>

lemma registration_flow_keeps_idle_inv:
  assumes "idle_inv c" "auth_mode c = Some ''register''"
  shows "idle_inv (snd (fst (handle_registration_flow e w c m)))"
  using assms
  by (simp add: handle_registration_flow_def idle_inv_def Let_def split_beta)

lemma login_flow_keeps_idle_inv:
  assumes "idle_inv c" "auth_mode c = Some ''login''" "kyc_step c \<noteq> 0"
  shows "idle_inv (snd (fst (handle_login_flow e w c m)))"
  using assms
  by (simp add: handle_login_flow_def idle_inv_def Let_def split_beta split: option.splits)

lemma handle_kyc_keeps_idle_inv:
  assumes "idle_inv c"
  shows "idle_inv (snd (fst (handle_kyc e w c m)))"
proof (cases "kyc_step c = 0")
  case True
  with assms show ?thesis
    by (simp add: handle_kyc_def idle_inv_def Let_def)
next
  case False
  show ?thesis
  proof (cases "auth_mode c = Some ''register''")
    case True
    with False registration_flow_keeps_idle_inv [OF assms True] show ?thesis
      by (simp add: handle_kyc_def)
  next
    case nr: False
    show ?thesis
    proof (cases "auth_mode c = Some ''login''")
      case True
      have "snd (fst (handle_kyc e w c m)) = snd (fst (handle_login_flow e w c m))"
        using False nr True
        by (simp add: handle_kyc_def split: prod.splits sum.splits)
      with login_flow_keeps_idle_inv [OF assms True False] show ?thesis by simp
    next
      case False
      with nr \<open>kyc_step c \<noteq> 0\<close> assms show ?thesis by (simp add: handle_kyc_def)
    qed
  qed
qed

lemma get_current_user_keeps_idle_inv:
  assumes "idle_inv c"
  shows "idle_inv (fst (get_current_user e w c))"
  using assms
  by (simp add: get_current_user_def clear_auth_session_def idle_inv_def split: option.splits)

lemma reachable_idle_inv: "reachable c \<Longrightarrow> idle_inv c"
proof (induction rule: reachable.induct)
  case (start i)
  show ?case by (simp add: idle_inv_def initial_conv_def)
next
  case (message c e w m w' c' r)
  from handle_kyc_keeps_idle_inv [OF message.IH, of e w m] message.hyps(2)
  show ?case by simp
next
  case (middleware c e w c' u)
  from get_current_user_keeps_idle_inv [OF middleware.IH, of e w] middleware.hyps(2)
  show ?case by simp
qed

text \<open>
  Claim C7. In every reachable conversation, \<open>kyc_step = 0\<close> implies that
  \<open>auth_mode\<close> is \<open>None\<close>, and \<open>auth_mode = None\<close> implies that \<open>kyc_data\<close> is
  empty.
\<close>

theorem idle_invariant:
  "reachable c \<Longrightarrow>
   (kyc_step c = 0 \<longrightarrow> auth_mode c = None) \<and> (auth_mode c = None \<longrightarrow> kyc_data c = [])"
  using reachable_idle_inv [of c] by (simp add: idle_inv_def)

text \<open>
  The conversation at the end of Jane's registration is reachable and idle.
\<close>

theorem idle_invariant_witness:
  "reachable jane_conv_registered \<and> kyc_step jane_conv_registered = 0 \<and>
   auth_mode jane_conv_registered = None \<and> kyc_data jane_conv_registered = []"
proof -
  have "reachable (initial_conv (Some ''conv-1''))" by (rule reachable.start)
  then have "reachable (jane_conv 1 [])" using step1 by (rule reachable.message)
  then have "reachable (jane_conv 2 [(''name'', ''Jane Doe'')])"
    using step2 by (rule reachable.message)
  then have "reachable (jane_conv 3 [(''name'', ''Jane Doe''), (''email'', ''jane@example.com'')])"
    using step3 by (rule reachable.message)
  then have "reachable (jane_conv 4 [(''name'', ''Jane Doe''), (''email'', ''jane@example.com''),
        (''mobile'', ''+201234567890'')])"
    using step4 by (rule reachable.message)
  then have "reachable (jane_conv 5 [(''name'', ''Jane Doe''), (''email'', ''jane@example.com''),
        (''mobile'', ''+201234567890''), (''faculty'', ''Engineering'')])"
    using step5 by (rule reachable.message)
  then have r: "reachable jane_conv_registered"
    using step6 by (rule reachable.message)
  have z: "kyc_step jane_conv_registered = 0"
    by (simp add: jane_conv_registered_def initial_conv_def)
  from idle_invariant [OF r] z r show ?thesis by blast
qed

section \<open>Authorization and the email check\<close>

text \<open>
  What the store and the conversation hold after a login that succeeds, and the login
  of Jane as an admin.
\<close>

lemma generate_jwt_token_users:
  "users (fst (generate_jwt_token e w sid user)) = users w"
  by (simp add: generate_jwt_token_def Let_def)

lemma update_first_set:
  "x \<in> set (update_first P f xs) \<Longrightarrow> x \<in> set xs \<or> (\<exists>y\<in>set xs. x = f y)"
  by (induction xs) (auto split: if_splits)

lemma authenticate_user_object_ids:
  assumes "\<forall>u\<in>set (users w). \<exists>h. u_id u = ObjectId h"
  shows "\<forall>u\<in>set (users (fst (authenticate_user e w sid name pw))). \<exists>h. u_id u = ObjectId h"
proof (cases "mongo w \<noteq> Up")
  case True
  with assms show ?thesis by (simp add: authenticate_user_def)
next
  case up: False
  let ?P = "\<lambda>u. (u_username u = Some (lower name) \<or> u_email u = Some (lower name)) \<and> u_is_active u"
  show ?thesis
  proof (cases "find ?P (users w)")
    case None
    with up assms show ?thesis by (simp add: authenticate_user_def)
  next
    case (Some user)
    show ?thesis
    proof (cases "verify_password e pw (u_password_hash user)")
      case False
      with up Some assms show ?thesis by (simp add: authenticate_user_def)
    next
      case True
      let ?us = "update_first (\<lambda>u. u_id u = u_id user)
                   (\<lambda>u. u\<lparr>u_last_login := Some (now e)\<rparr>) (users w)"
      have us: "users (fst (authenticate_user e w sid name pw)) = ?us"
        using up Some True
        by (simp add: authenticate_user_def Let_def split_beta generate_jwt_token_users)
      have "\<exists>h. u_id x = ObjectId h" if "x \<in> set ?us" for x
        using update_first_set [OF that] assms by auto
      with us show ?thesis by simp
    qed
  qed
qed

lemma login_success_state:
  assumes step: "kyc_step c = 2" and mode: "auth_mode c = Some ''login''"
    and email: "map_of (kyc_data c) ''email'' = Some em"
    and client: "mongo w \<noteq> NoClient"
    and auth: "authenticate_user e w (session_id_of c) em (strip m) = (w1, Some t, Some v)"
  shows "fst (handle_kyc e w c m) =
      (w1, (fst (set_authenticated_user
                  (c\<lparr>kyc_data := AList.update ''password'' (strip m) (kyc_data c)\<rparr>) t v))
             \<lparr>kyc_step := 0, kyc_data := [], auth_mode := None\<rparr>)"
proof -
  let ?c0 = "c\<lparr>kyc_data := AList.update ''password'' (strip m) (kyc_data c)\<rparr>"
  have sid: "session_id_of ?c0 = session_id_of c" by (simp add: session_id_of_def)
  have auth0: "authenticate_user e w (session_id_of ?c0) em (strip m) = (w1, Some t, Some v)"
    using auth sid by simp
  have flow: "handle_kyc e w c m =
     (case handle_login_flow e w c m of (st, Inr r) \<Rightarrow> (st, r)
      | (st, Inl err) \<Rightarrow> (st, (True, None, None)))"
    using step mode by (simp add: handle_kyc_def)
  show ?thesis
    unfolding flow handle_login_flow_def
    using step email attempt_user_login_success [OF client auth0]
    by (simp add: Let_def email_after_password)
qed

lemma admin_authenticated:
  "fst (snd (authenticate_user (nth_login 0) admin_world ''conv-2'' ''jane@example.com''
       ''Passw0rd'')) =
     Some (Signed \<lparr> p_user_id = ''65f000000000000000000001'',
              p_username = Some ''jane@example.com'', p_email = Some ''jane@example.com'',
              p_role = ''admin'', p_exp = 88400, p_iat = 2000, p_session_id = ''conv-2'' \<rparr>) \<and>
   snd (snd (authenticate_user (nth_login 0) admin_world ''conv-2'' ''jane@example.com''
       ''Passw0rd'')) = Some (view_of_login admin_doc)"
  by (simp add: authenticate_user_def jane_lower admin_world_def admin_doc_def world_issued_def
      jane_doc_def verify_password_def example_env_def nth_login_def generate_jwt_token_def
      Let_def jane_session_def jane_token_def jwt_encode_def role_or_default_def
      TOKEN_EXPIRY_HOURS_def split_beta)

lemma admin_login_state:
  "is_authenticated (snd admin_login) \<and>
   authenticated_user (snd admin_login) = Some (view_of_login admin_doc) \<and>
   auth_token (snd admin_login) =
     Some (Signed \<lparr> p_user_id = ''65f000000000000000000001'',
              p_username = Some ''jane@example.com'', p_email = Some ''jane@example.com'',
              p_role = ''admin'', p_exp = 88400, p_iat = 2000, p_session_id = ''conv-2'' \<rparr>) \<and>
   v_role (view_of_login admin_doc) = ''admin'' \<and>
   (\<forall>u\<in>set (users (fst admin_login)). \<exists>h. u_id u = ObjectId h)"
proof -
  have step: "kyc_step jane_login_conv = 2" and mode: "auth_mode jane_login_conv = Some ''login''"
    and email: "map_of (kyc_data jane_login_conv) ''email'' = Some ''jane@example.com''"
    and sid: "session_id_of jane_login_conv = ''conv-2''"
    by (simp_all add: jane_login_conv_def initial_conv_def session_id_of_def)
  have client: "mongo admin_world \<noteq> NoClient" by (simp add: admin_world_def world_issued_def)
  have pw: "strip ''Passw0rd'' = ''Passw0rd''" using jane_password by blast
  let ?r = "authenticate_user (nth_login 0) admin_world ''conv-2'' ''jane@example.com'' ''Passw0rd''"
  let ?t = "Signed \<lparr> p_user_id = ''65f000000000000000000001'',
              p_username = Some ''jane@example.com'', p_email = Some ''jane@example.com'',
              p_role = ''admin'', p_exp = 88400, p_iat = 2000, p_session_id = ''conv-2'' \<rparr>"
  have r: "?r = (fst ?r, Some ?t, Some (view_of_login admin_doc))"
    using admin_authenticated by (metis prod.collapse)
  have auth: "authenticate_user (nth_login 0) admin_world (session_id_of jane_login_conv)
       ''jane@example.com'' (strip ''Passw0rd'') = (fst ?r, Some ?t, Some (view_of_login admin_doc))"
    unfolding sid pw by (rule r)
  have st: "admin_login = (fst ?r, (fst (set_authenticated_user
                  (jane_login_conv\<lparr>kyc_data := AList.update ''password'' (strip ''Passw0rd'')
                       (kyc_data jane_login_conv)\<rparr>) ?t (view_of_login admin_doc)))
             \<lparr>kyc_step := 0, kyc_data := [], auth_mode := None\<rparr>)"
    unfolding admin_login_def by (rule login_success_state [OF step mode email client auth])
  have ids: "\<forall>u\<in>set (users admin_world). \<exists>h. u_id u = ObjectId h"
    by (simp add: admin_world_def admin_doc_def jane_doc_def)
  have role: "v_role (view_of_login admin_doc) = ''admin''"
    by (simp add: view_of_login_def admin_doc_def role_or_default_def)
  show ?thesis
    using authenticate_user_object_ids [OF ids, of "nth_login 0" "''conv-2''"
        "''jane@example.com''" "''Passw0rd''"] role
    by (simp add: st set_authenticated_user_def)
qed

text \<open>
  The role of a conversation, read off its session: without the flag or without a
  stored user it is \<open>GUEST\<close>; with both and no token it is the stored user's; with a
  token it is the verified user's, and \<open>GUEST\<close> when the token does not verify.
\<close>

lemma has_permission_rank:
  "snd (has_permission e w c r) =
     (role_hierarchy r \<le> role_hierarchy (snd (get_user_role e w c)))"
  by (simp add: has_permission_def split_beta)

lemma get_user_role_session:
  "snd (get_user_role e w c) =
     (if is_authenticated c then
        (case authenticated_user c of
           None \<Rightarrow> GUEST
         | Some user_data \<Rightarrow>
             (case auth_token c of
                None \<Rightarrow>
                  (case UserRole_of (v_role user_data) of None \<Rightarrow> USER | Some r \<Rightarrow> r)
              | Some tok \<Rightarrow>
                  (case verify_token e w tok of
                     None \<Rightarrow> GUEST
                   | Some verified \<Rightarrow>
                       (case UserRole_of (v_role verified) of None \<Rightarrow> USER | Some r \<Rightarrow> r))))
      else GUEST)"
  by (simp add: get_user_role_def get_current_user_def split: option.splits)

lemma object_ids_clear_session:
  assumes "\<forall>u\<in>set (users w). \<exists>h. u_id u = ObjectId h"
    and "is_authenticated c" and "authenticated_user c = Some u" and "auth_token c = Some tok"
  shows "get_user_role e w c = (clear_auth_session c, GUEST)"
  using assms(2-4) verify_token_fails_on_object_ids [OF assms(1), of e tok]
  by (simp add: get_user_role_def get_current_user_def)

text \<open>
  Claim C9. \<open>has_permission\<close> holds exactly when the rank of the required role is at
  most the rank of the current role, with guest 0, user 1, premium\_user 2, admin 3. The
  current role is \<open>GUEST\<close> unless \<open>is_authenticated\<close> is set and a user is stored;
  then, with no token stored, it is the role the stored user names, and with a token it
  is the role of the user that \<open>verify_token\<close> returns, \<open>USER\<close> for a name that is no
  role, and \<open>GUEST\<close> when the token does not verify. \<open>GUEST\<close> is granted to
  everyone; with a token that verifies, \<open>ADMIN\<close> is granted to an admin and refused to
  a user. In a store whose users all sit under an \<open>ObjectId\<close> a conversation that
  holds a token is \<open>GUEST\<close> and is refused \<open>ADMIN\<close>, and its session is cleared:
  so it is for Jane, an admin, right after her login.
\<close>

theorem has_permission_session_role:
  "snd (has_permission e w c required) =
     (role_hierarchy required \<le> role_hierarchy (snd (get_user_role e w c))) \<and>
   snd (get_user_role e w c) =
     (if is_authenticated c then
        (case authenticated_user c of
           None \<Rightarrow> GUEST
         | Some user_data \<Rightarrow>
             (case auth_token c of
                None \<Rightarrow>
                  (case UserRole_of (v_role user_data) of None \<Rightarrow> USER | Some r \<Rightarrow> r)
              | Some tok \<Rightarrow>
                  (case verify_token e w tok of
                     None \<Rightarrow> GUEST
                   | Some verified \<Rightarrow>
                       (case UserRole_of (v_role verified) of None \<Rightarrow> USER | Some r \<Rightarrow> r))))
      else GUEST) \<and>
   UserRole_of ''guest'' = Some GUEST \<and> UserRole_of ''user'' = Some USER \<and>
   UserRole_of ''premium_user'' = Some PREMIUM \<and> UserRole_of ''admin'' = Some ADMIN \<and>
   role_hierarchy GUEST = 0 \<and> role_hierarchy USER = 1 \<and>
   role_hierarchy PREMIUM = 2 \<and> role_hierarchy ADMIN = 3 \<and>
   snd (has_permission e w c GUEST) \<and>
   (is_authenticated c \<and> authenticated_user c = Some u \<and> auth_token c = Some t \<and>
    verify_token e w t = Some v \<longrightarrow>
      (v_role v = ''admin'' \<longrightarrow> snd (has_permission e w c ADMIN)) \<and>
      (v_role v = ''user'' \<longrightarrow> \<not> snd (has_permission e w c ADMIN)) \<and>
      (UserRole_of (v_role v) = None \<longrightarrow> snd (get_user_role e w c) = USER)) \<and>
   (is_authenticated c \<and> authenticated_user c = Some u \<and> auth_token c = Some t \<and>
    verify_token e w t = None \<longrightarrow>
      snd (get_user_role e w c) = GUEST \<and> \<not> snd (has_permission e w c ADMIN)) \<and>
   ((\<forall>x\<in>set (users w). \<exists>h. u_id x = ObjectId h) \<and>
    is_authenticated c \<and> authenticated_user c = Some u \<and> auth_token c = Some t \<longrightarrow>
      snd (get_user_role e w c) = GUEST \<and> \<not> snd (has_permission e w c ADMIN) \<and>
      fst (has_permission e w c ADMIN) = clear_auth_session c) \<and>
   is_authenticated (snd admin_login) \<and>
   authenticated_user (snd admin_login) = Some (view_of_login admin_doc) \<and>
   v_role (view_of_login admin_doc) = ''admin'' \<and>
   snd (get_user_role (nth_login 1) (fst admin_login) (snd admin_login)) = GUEST \<and>
   \<not> snd (has_permission (nth_login 1) (fst admin_login) (snd admin_login) ADMIN)"
proof -
  note hp = has_permission_rank
  note gr = get_user_role_session
  have names: "UserRole_of ''guest'' = Some GUEST \<and> UserRole_of ''user'' = Some USER \<and>
   UserRole_of ''premium_user'' = Some PREMIUM \<and> UserRole_of ''admin'' = Some ADMIN"
    by (simp add: UserRole_of_def)
  have ranks: "role_hierarchy GUEST = 0 \<and> role_hierarchy USER = 1 \<and>
   role_hierarchy PREMIUM = 2 \<and> role_hierarchy ADMIN = 3"
    by simp
  have guest: "snd (has_permission e w c GUEST)" by (simp add: hp)
  have verified: "(v_role v = ''admin'' \<longrightarrow> snd (has_permission e w c ADMIN)) \<and>
      (v_role v = ''user'' \<longrightarrow> \<not> snd (has_permission e w c ADMIN)) \<and>
      (UserRole_of (v_role v) = None \<longrightarrow> snd (get_user_role e w c) = USER)"
    if "is_authenticated c \<and> authenticated_user c = Some u \<and> auth_token c = Some t \<and>
        verify_token e w t = Some v"
    using that names by (auto simp: hp gr)
  have refused: "snd (get_user_role e w c) = GUEST \<and> \<not> snd (has_permission e w c ADMIN)"
    if "is_authenticated c \<and> authenticated_user c = Some u \<and> auth_token c = Some t \<and>
        verify_token e w t = None"
    using that by (simp add: hp gr)
  have object_ids: "snd (get_user_role e w c) = GUEST \<and> \<not> snd (has_permission e w c ADMIN) \<and>
      fst (has_permission e w c ADMIN) = clear_auth_session c"
    if h: "(\<forall>x\<in>set (users w). \<exists>h. u_id x = ObjectId h) \<and>
        is_authenticated c \<and> authenticated_user c = Some u \<and> auth_token c = Some t"
  proof -
    from h have "get_user_role e w c = (clear_auth_session c, GUEST)"
      using object_ids_clear_session by blast
    then show ?thesis by (simp add: has_permission_def)
  qed
  have login: "is_authenticated (snd admin_login) \<and>
     authenticated_user (snd admin_login) = Some (view_of_login admin_doc) \<and>
     v_role (view_of_login admin_doc) = ''admin''"
    using admin_login_state by blast
  have "get_user_role (nth_login 1) (fst admin_login) (snd admin_login) =
      (clear_auth_session (snd admin_login), GUEST)"
    using admin_login_state object_ids_clear_session by blast
  then have failing: "snd (get_user_role (nth_login 1) (fst admin_login) (snd admin_login)) = GUEST \<and>
     \<not> snd (has_permission (nth_login 1) (fst admin_login) (snd admin_login) ADMIN)"
    by (simp add: has_permission_def)
  show ?thesis
    using hp gr names ranks guest verified refused object_ids login failing by blast
qed

lemma verify_string_id:
  "verify_token example_env (string_id_world r) jane_token =
     Some \<lparr> v_user_id = ''65f000000000000000000001'', v_username = Some ''jane@example.com'',
            v_email = Some ''jane@example.com'', v_name = Some ''Jane Doe'',
            v_mobile = Some ''+201234567890'', v_faculty = Some ''Engineering'',
            v_role = r, v_last_login = None, v_session_id = Some ''conv-1'',
            v_token = Some jane_token \<rparr>"
proof -
  have dec: "jwt_decode (now example_env) jane_token =
     Inr \<lparr> p_user_id = ''65f000000000000000000001'',
           p_username = Some ''jane@example.com'', p_email = Some ''jane@example.com'',
           p_role = ''user'', p_exp = 87400, p_iat = 1000, p_session_id = ''conv-1'' \<rparr>"
    by (simp add: jwt_decode_def jane_token_def example_env_def)
  show ?thesis
    unfolding verify_token_def dec
    by (simp add: string_id_world_def world_issued_def jane_doc_def jane_session_def
        role_or_default_def example_env_def)
qed

text \<open>
  A verified session with role admin, user, and an unknown role, on a store that keeps
  Jane under a string identifier; her session on the store the registration built; and
  a fresh conversation.
\<close>

theorem has_permission_session_role_witness:
  "snd (has_permission example_env (string_id_world ''admin'') logged_in_conv ADMIN) \<and>
   \<not> snd (has_permission example_env (string_id_world ''user'') logged_in_conv ADMIN) \<and>
   snd (get_user_role example_env (string_id_world ''superuser'') logged_in_conv) = USER \<and>
   snd (get_user_role example_env world_issued logged_in_conv) = GUEST \<and>
   \<not> snd (has_permission example_env world_issued logged_in_conv ADMIN) \<and>
   snd (get_user_role example_env empty_world (initial_conv None)) = GUEST \<and>
   snd (has_permission example_env empty_world (initial_conv None) GUEST)"
proof -
  have c: "is_authenticated logged_in_conv \<and>
      authenticated_user logged_in_conv = Some (view_of_login jane_doc) \<and>
      auth_token logged_in_conv = Some jane_token"
    by (simp add: logged_in_conv_def set_authenticated_user_def)
  have unknown: "UserRole_of ''superuser'' = None" by (simp add: UserRole_of_def)
  have ids: "\<forall>x\<in>set (users world_issued). \<exists>h. u_id x = ObjectId h"
    by (simp add: world_issued_def jane_doc_def)
  have fresh: "\<not> is_authenticated (initial_conv None)" by (simp add: initial_conv_def)
  from c verify_string_id [of "''admin''"]
    has_permission_session_role [of example_env "string_id_world ''admin''" logged_in_conv ADMIN
      "view_of_login jane_doc" jane_token]
  have 1: "snd (has_permission example_env (string_id_world ''admin'') logged_in_conv ADMIN)"
    by simp
  from c verify_string_id [of "''user''"]
    has_permission_session_role [of example_env "string_id_world ''user''" logged_in_conv ADMIN
      "view_of_login jane_doc" jane_token]
  have 2: "\<not> snd (has_permission example_env (string_id_world ''user'') logged_in_conv ADMIN)"
    by simp
  from c verify_string_id [of "''superuser''"] unknown
    has_permission_session_role [of example_env "string_id_world ''superuser''" logged_in_conv
      ADMIN "view_of_login jane_doc" jane_token]
  have 3: "snd (get_user_role example_env (string_id_world ''superuser'') logged_in_conv) = USER"
    by simp
  from c ids
    has_permission_session_role [of example_env world_issued logged_in_conv ADMIN
      "view_of_login jane_doc" jane_token]
  have 4: "snd (get_user_role example_env world_issued logged_in_conv) = GUEST \<and>
      \<not> snd (has_permission example_env world_issued logged_in_conv ADMIN)"
    by blast
  from fresh
    has_permission_session_role [of example_env empty_world "initial_conv None" GUEST]
  have 5: "snd (get_user_role example_env empty_world (initial_conv None)) = GUEST \<and>
      snd (has_permission example_env empty_world (initial_conv None) GUEST)"
    by simp
  from 1 2 3 4 5 show ?thesis by blast
qed

text \<open>
  Claim C10. \<open>email_exists\<close> is false whenever the store is not up or the lookup
  raises, whatever the store holds; at registration step 2 a well-formed email is then
  stored and the dialogue moves to step 3, with the same reply and the same conversation
  as against a working store without that email.
\<close>

theorem email_check_fails_open:
  "(mongo w \<noteq> Up \<longrightarrow> \<not> email_exists e w em) \<and>
   (CHR ''.'' \<notin> set (USERS_COLLECTION e) \<longrightarrow> \<not> email_exists e w em) \<and>
   (mongo w \<noteq> Up \<and> kyc_step c = 2 \<and> is_valid_email m \<longrightarrow>
      handle_registration_flow e w c m =
        ((w, c\<lparr>kyc_data := AList.update ''email'' (lower (strip m)) (kyc_data c),
                kyc_step := 3\<rparr>),
         (True, Some ''register'', Some msg_email_ok)) \<and>
      snd (fst (handle_registration_flow e w c m)) =
        snd (fst (handle_registration_flow e (w\<lparr>mongo := Up, kyc_emails := []\<rparr>) c m)) \<and>
      snd (handle_registration_flow e w c m) =
        snd (handle_registration_flow e (w\<lparr>mongo := Up, kyc_emails := []\<rparr>) c m)) \<and>
   (mongo w \<noteq> Up \<and> kyc_step c = 2 \<and> auth_mode c = Some ''register'' \<and> is_valid_email m \<longrightarrow>
      kyc_step (snd (fst (handle_kyc e w c m))) = 3)"
proof -
  have down: "\<not> email_exists e w x" if "mongo w \<noteq> Up" for x
    using that by (cases "mongo w") (simp_all add: email_exists_def)
  have nodot: "\<not> email_exists e w x" if "CHR ''.'' \<notin> set (USERS_COLLECTION e)" for x
    using that by (cases "mongo w") (simp_all add: email_exists_def)
  have empty: "\<not> email_exists e (w\<lparr>mongo := Up, kyc_emails := []\<rparr>) x" for x
    by (simp add: email_exists_def)
  have flow: "handle_registration_flow e w c m =
        ((w, c\<lparr>kyc_data := AList.update ''email'' (lower (strip m)) (kyc_data c),
                kyc_step := 3\<rparr>),
         (True, Some ''register'', Some msg_email_ok))"
    if "mongo w \<noteq> Up" "kyc_step c = 2" "is_valid_email m"
    using that down [OF that(1)] by (simp add: handle_registration_flow_def)
  have flow_up: "handle_registration_flow e (w\<lparr>mongo := Up, kyc_emails := []\<rparr>) c m =
        ((w\<lparr>mongo := Up, kyc_emails := []\<rparr>,
          c\<lparr>kyc_data := AList.update ''email'' (lower (strip m)) (kyc_data c),
                kyc_step := 3\<rparr>),
         (True, Some ''register'', Some msg_email_ok))"
    if "kyc_step c = 2" "is_valid_email m"
    using that empty by (simp add: handle_registration_flow_def)
  have kyc: "kyc_step (snd (fst (handle_kyc e w c m))) = 3"
    if "mongo w \<noteq> Up" "kyc_step c = 2" "auth_mode c = Some ''register''" "is_valid_email m"
    using that flow [OF that(1,2,4)] by (simp add: handle_kyc_def)
  show ?thesis
  proof (intro conjI impI)
    show "\<not> email_exists e w em" if "mongo w \<noteq> Up" using that by (rule down)
    show "\<not> email_exists e w em" if "CHR ''.'' \<notin> set (USERS_COLLECTION e)"
      using that by (rule nodot)
  next
    assume a: "mongo w \<noteq> Up \<and> kyc_step c = 2 \<and> is_valid_email m"
    then show "handle_registration_flow e w c m =
        ((w, c\<lparr>kyc_data := AList.update ''email'' (lower (strip m)) (kyc_data c),
                kyc_step := 3\<rparr>),
         (True, Some ''register'', Some msg_email_ok))"
      using flow by blast
    from a have 1: "handle_registration_flow e w c m =
        ((w, c\<lparr>kyc_data := AList.update ''email'' (lower (strip m)) (kyc_data c),
                kyc_step := 3\<rparr>),
         (True, Some ''register'', Some msg_email_ok))"
      using flow by blast
    from a have 2: "handle_registration_flow e (w\<lparr>mongo := Up, kyc_emails := []\<rparr>) c m =
        ((w\<lparr>mongo := Up, kyc_emails := []\<rparr>,
          c\<lparr>kyc_data := AList.update ''email'' (lower (strip m)) (kyc_data c),
                kyc_step := 3\<rparr>),
         (True, Some ''register'', Some msg_email_ok))"
      using flow_up by blast
    show "snd (fst (handle_registration_flow e w c m)) =
        snd (fst (handle_registration_flow e (w\<lparr>mongo := Up, kyc_emails := []\<rparr>) c m))"
      by (simp only: 1 2 fst_conv snd_conv)
    show "snd (handle_registration_flow e w c m) =
        snd (handle_registration_flow e (w\<lparr>mongo := Up, kyc_emails := []\<rparr>) c m)"
      by (simp only: 1 2 fst_conv snd_conv)
  next
    assume "mongo w \<noteq> Up \<and> kyc_step c = 2 \<and> auth_mode c = Some ''register'' \<and> is_valid_email m"
    then show "kyc_step (snd (fst (handle_kyc e w c m))) = 3"
      using kyc by blast
  qed
qed

text \<open>
  The store fails while Jane's email is already in the collection.
\<close>

theorem email_check_fails_open_witness:
  "kyc_step (snd (fst (handle_kyc example_env
       (empty_world\<lparr>mongo := Failing, kyc_emails := [Some ''jane@example.com'']\<rparr>)
       (jane_conv 2 [(''name'', ''Jane Doe'')]) ''jane@example.com''))) = 3 \<and>
   \<not> email_exists example_env
       (empty_world\<lparr>mongo := Failing, kyc_emails := [Some ''jane@example.com'']\<rparr>)
       ''jane@example.com'' \<and>
   email_exists example_env
       (empty_world\<lparr>kyc_emails := [Some ''jane@example.com'']\<rparr>) ''jane@example.com''"
proof -
  let ?w = "empty_world\<lparr>mongo := Failing, kyc_emails := [Some ''jane@example.com'']\<rparr>"
  let ?c = "jane_conv 2 [(''name'', ''Jane Doe'')]"
  have h: "mongo ?w \<noteq> Up \<and> kyc_step ?c = 2 \<and> auth_mode ?c = Some ''register'' \<and>
      is_valid_email ''jane@example.com''"
    using jane_email by (simp add: jane_conv_def empty_world_def)
  have up: "email_exists example_env
       (empty_world\<lparr>kyc_emails := [Some ''jane@example.com'']\<rparr>) ''jane@example.com''"
    by (simp add: email_exists_def empty_world_def example_env_def)
  from h email_check_fails_open [of ?w example_env "''jane@example.com''" ?c "''jane@example.com''"]
  have "kyc_step (snd (fst (handle_kyc example_env ?w ?c ''jane@example.com''))) = 3 \<and>
     \<not> email_exists example_env ?w ''jane@example.com''"
    by blast
  with up show ?thesis by blast
qed

end
